theory Spec2Isabelle
  imports Main
begin

section \<open>Python strings\<close>

text \<open>
  Strings are \<^typ>\<open>string\<close>, one \<^typ>\<open>char\<close> per character. Splitting,
  joining, stripping a given character and taking the length are functions of the list.
  What depends on the character tables of the Python runtime is not. The compiler, which
  works on recorded text of any kind, takes \<^verbatim>\<open>str.lower\<close>,
  \<^verbatim>\<open>str.upper\<close>, \<^verbatim>\<open>str.isdigit\<close> and \<^verbatim>\<open>str.strip\<close> as
  parameters, like the other library functions it calls, and the recorder takes the
  matcher of \<^verbatim>\<open>re\<close>, which it uses with \<^verbatim>\<open>re.IGNORECASE\<close>.

  The proxy scripts compare header names, and header values with the words
  \<^verbatim>\<open>true\<close>, \<^verbatim>\<open>false\<close>, \<^verbatim>\<open>real\<close> and \<^verbatim>\<open>mock\<close>, in
  lower case; \<open>lower\<close> and \<open>upper\<close> below change the letters A to Z and a to z.
  They are also what the concrete runtime of the examples uses, whose texts are ASCII.
\<close>

definition lower_char :: "char \<Rightarrow> char" where
  "lower_char c =
     (case map_of (zip ''ABCDEFGHIJKLMNOPQRSTUVWXYZ'' ''abcdefghijklmnopqrstuvwxyz'') c of
        None \<Rightarrow> c
      | Some d \<Rightarrow> d)"

definition upper_char :: "char \<Rightarrow> char" where
  "upper_char c =
     (case map_of (zip ''abcdefghijklmnopqrstuvwxyz'' ''ABCDEFGHIJKLMNOPQRSTUVWXYZ'') c of
        None \<Rightarrow> c
      | Some d \<Rightarrow> d)"

definition lower :: "string \<Rightarrow> string" where
  "lower s = map lower_char s"

definition upper :: "string \<Rightarrow> string" where
  "upper s = map upper_char s"

text \<open>\<^verbatim>\<open>s.split(sep)\<close> for a one-character separator: never an empty list.\<close>

fun split :: "char \<Rightarrow> string \<Rightarrow> string list" where
  "split sep [] = [[]]"
| "split sep (c # cs) =
     (if c = sep then [] # split sep cs
      else (case split sep cs of
              [] \<Rightarrow> [[c]]
            | p # ps \<Rightarrow> (c # p) # ps))"

fun join :: "string \<Rightarrow> string list \<Rightarrow> string" where
  "join sep [] = []"
| "join sep [p] = p"
| "join sep (p # q # ps) = p @ sep @ join sep (q # ps)"

definition lstrip :: "char \<Rightarrow> string \<Rightarrow> string" where
  "lstrip c s = dropWhile (\<lambda>x. x = c) s"

text \<open>The decimal text of a natural number, as an f-string prints \<^verbatim>\<open>len(recs)\<close>.\<close>

definition digit_char :: "nat \<Rightarrow> char" where
  "digit_char d = ''0123456789'' ! d"

function str_nat :: "nat \<Rightarrow> string" where
  "str_nat n = (if n < 10 then [digit_char n] else str_nat (n div 10) @ [digit_char (n mod 10)])"
  by pat_completeness auto
termination
  by (relation "measure (\<lambda>n. n)") auto

declare str_nat.simps [simp del]

section \<open>Decoded JSON values and Python's errors\<close>

text \<open>
  What \<^verbatim>\<open>json.loads\<close> returns. A Python \<^verbatim>\<open>dict\<close> keeps its entries in
  insertion order, so an object is an association list (its keys distinct in any value
  that Python builds). A float is kept by its text: no script computes with one.
\<close>

datatype json =
    JNull
  | JBool bool
  | JInt int
  | JFloat string
  | JStr string
  | JArr "json list"
  | JObj "(string \<times> json) list"

datatype py_error =
    JSONDecodeError
  | KeyError string
  | TypeError
  | AttributeError
  | ValueError
  | IndexError

definition bind :: "py_error + 'a \<Rightarrow> ('a \<Rightarrow> py_error + 'b) \<Rightarrow> py_error + 'b" where
  "bind m f = (case m of Inl e \<Rightarrow> Inl e | Inr x \<Rightarrow> f x)"

text \<open>
  \<^verbatim>\<open>v[k]\<close> with a string key: a missing key of a dict raises KeyError, and a
  list, string, number, boolean or None subscripted by a string raises TypeError.
\<close>

fun getitem :: "json \<Rightarrow> string \<Rightarrow> py_error + json" where
  "getitem (JObj d) k = (case map_of d k of None \<Rightarrow> Inl (KeyError k) | Some v \<Rightarrow> Inr v)"
| "getitem _ k = Inl TypeError"

section \<open>The route-table compiler (mitm\_to\_mockoon.py)\<close>

text \<open>
  The library functions the compiler calls are parameters of the model:
  \<^verbatim>\<open>json.loads\<close> (\<open>None\<close> when it raises JSONDecodeError),
  \<^verbatim>\<open>json.dumps(v, indent=2)\<close>, \<^verbatim>\<open>str(v)\<close> as an f-string applies it to
  a value that is not a string, \<^verbatim>\<open>uuid.uuid4()\<close>, whose \<open>n\<close>-th call of
  a run returns \<open>uuid4 lib n\<close>, and the four methods of \<^verbatim>\<open>str\<close> that consult
  the character tables: \<^verbatim>\<open>s.lower()\<close>, \<^verbatim>\<open>s.upper()\<close>,
  \<^verbatim>\<open>s.isdigit()\<close> and \<^verbatim>\<open>s.strip()\<close>.
\<close>

record pylib =
  json_loads :: "string \<Rightarrow> json option"
  json_dumps_indent2 :: "json \<Rightarrow> string"
  str_of :: "json \<Rightarrow> string"
  uuid4 :: "nat \<Rightarrow> string"
  str_lower :: "string \<Rightarrow> string"
  str_upper :: "string \<Rightarrow> string"
  str_isdigit :: "string \<Rightarrow> bool"
  str_strip :: "string \<Rightarrow> string"

text \<open>\<^verbatim>\<open>v.lower()\<close>: only a string has the method.\<close>

fun lower_method :: "pylib \<Rightarrow> json \<Rightarrow> py_error + string" where
  "lower_method lib (JStr s) = Inr (str_lower lib s)"
| "lower_method lib _ = Inl AttributeError"

definition format_str :: "pylib \<Rightarrow> json \<Rightarrow> string" where
  "format_str lib v = (case v of JStr s \<Rightarrow> s | _ \<Rightarrow> str_of lib v)"

definition generate_uuid :: "pylib \<Rightarrow> nat \<Rightarrow> string \<times> nat" where
  "generate_uuid lib n = (uuid4 lib n, Suc n)"

record mockoon_header =
  hkey :: string
  hvalue :: json

definition exclude_headers :: "string list" where
  "exclude_headers =
     [''content-length'', ''transfer-encoding'', ''connection'',
      ''keep-alive'', ''host'', ''content-encoding'']"

text \<open>\<^verbatim>\<open>headers.items()\<close> raises AttributeError on anything but a dict.\<close>

fun clean_headers :: "pylib \<Rightarrow> json \<Rightarrow> py_error + mockoon_header list" where
  "clean_headers lib (JObj headers) =
     Inr (map (\<lambda>(k, v). \<lparr>hkey = k, hvalue = v\<rparr>)
            (filter (\<lambda>(k, v). str_lower lib k \<notin> set exclude_headers) headers))"
| "clean_headers lib _ = Inl AttributeError"

definition determine_endpoint :: "pylib \<Rightarrow> string \<Rightarrow> string" where
  "determine_endpoint lib path =
     (let parts = split CHR ''/'' path;
          result = map (\<lambda>part.
                      if str_isdigit lib part \<or> (CHR ''-'' \<in> set part \<and> length part > 30)
                      then '':id'' else part)
                     (filter (\<lambda>part. part \<noteq> []) parts)
      in if result \<noteq> [] then ''/'' @ join ''/'' result else path)"

text \<open>The key of a recording, \<^verbatim>\<open>f"{method}:{path}"\<close>.\<close>

definition recording_key :: "pylib \<Rightarrow> json \<Rightarrow> py_error + string" where
  "recording_key lib rec =
     bind (getitem rec ''request'') (\<lambda>req.
     bind (getitem req ''method'') (\<lambda>m.
     bind (lower_method lib m) (\<lambda>method.
     bind (getitem rec ''request'') (\<lambda>req'.
     bind (getitem req' ''path'') (\<lambda>path.
     Inr (method @ '':'' @ format_str lib path))))))"

text \<open>
  \<^verbatim>\<open>grouped[key].append(rec)\<close> on a \<^verbatim>\<open>defaultdict(list)\<close>: a new key goes
  last, a known key keeps its place.
\<close>

fun grouped_append :: "(string \<times> json list) list \<Rightarrow> string \<Rightarrow> json \<Rightarrow> (string \<times> json list) list" where
  "grouped_append [] key rec = [(key, [rec])]"
| "grouped_append ((k, recs) # grouped) key rec =
     (if k = key then (k, recs @ [rec]) # grouped
      else (k, recs) # grouped_append grouped key rec)"

fun read_recordings :: "pylib \<Rightarrow> string list \<Rightarrow> py_error + json list" where
  "read_recordings lib [] = Inr []"
| "read_recordings lib (line # lines) =
     (if str_strip lib line = [] then read_recordings lib lines
      else (case json_loads lib line of
              None \<Rightarrow> Inl JSONDecodeError
            | Some rec \<Rightarrow> bind (read_recordings lib lines) (\<lambda>recordings. Inr (rec # recordings))))"

fun group_recordings ::
  "pylib \<Rightarrow> (string \<times> json list) list \<Rightarrow> json list \<Rightarrow> py_error + (string \<times> json list) list" where
  "group_recordings lib grouped [] = Inr grouped"
| "group_recordings lib grouped (rec # recordings) =
     bind (recording_key lib rec) (\<lambda>key.
       group_recordings lib (grouped_append grouped key rec) recordings)"

record response_variant =
  rv_uuid :: string
  body :: json
  latency :: int
  statusCode :: json
  label :: string
  headers :: "mockoon_header list"
  bodyType :: string
  filePath :: string
  databucketID :: string
  sendFileAsBody :: bool
  rules :: "json list"
  rulesOperator :: string
  disableTemplating :: bool
  fallbackTo404 :: bool
  is_default :: bool

text \<open>A route of the table; \<open>route_method\<close> is its \<^verbatim>\<open>"method"\<close> entry.\<close>

record route =
  uuid :: string
  documentation :: string
  route_method :: string
  endpoint :: string
  responses :: "response_variant list"
  enabled :: bool
  responseMode :: json

text \<open>\<^verbatim>\<open>method, path = key.split(':', 1)\<close>: ValueError when there is no colon.\<close>

definition split_key :: "string \<Rightarrow> py_error + string \<times> string" where
  "split_key key =
     (if CHR '':'' \<in> set key
      then Inr (takeWhile (\<lambda>c. c \<noteq> CHR '':'') key, drop 1 (dropWhile (\<lambda>c. c \<noteq> CHR '':'') key))
      else Inl ValueError)"

definition first_recording :: "json list \<Rightarrow> py_error + json" where
  "first_recording recs = (case recs of [] \<Rightarrow> Inl IndexError | r # _ \<Rightarrow> Inr r)"

definition response_body :: "pylib \<Rightarrow> json \<Rightarrow> json" where
  "response_body lib b = (case b of JObj d \<Rightarrow> JStr (json_dumps_indent2 lib b) | _ \<Rightarrow> b)"

definition build_route :: "pylib \<Rightarrow> nat \<Rightarrow> string \<times> json list \<Rightarrow> py_error + route \<times> nat" where
  "build_route lib n entry =
     (case entry of (key, recs) \<Rightarrow>
     bind (split_key key) (\<lambda>(method, path).
     bind (first_recording recs) (\<lambda>first_rec.
     let endpoint = lstrip CHR ''/'' (determine_endpoint lib path) in
     bind (getitem first_rec ''response'') (\<lambda>resp.
     bind (getitem resp ''body'') (\<lambda>b.
     let response_body = response_body lib b;
         (route_uuid, n1) = generate_uuid lib n;
         (resp_uuid, n2) = generate_uuid lib n1 in
     bind (getitem first_rec ''response'') (\<lambda>resp'.
     bind (getitem resp' ''status_code'') (\<lambda>status_code.
     bind (getitem first_rec ''response'') (\<lambda>resp''.
     bind (getitem resp'' ''headers'') (\<lambda>hs.
     bind (clean_headers lib hs) (\<lambda>cleaned.
     Inr (\<lparr>uuid = route_uuid,
           documentation = ''Recorded: '' @ str_upper lib method @ '' '' @ path,
           route_method = method,
           endpoint = endpoint,
           responses =
             [\<lparr>rv_uuid = resp_uuid,
               body = response_body,
               latency = 0,
               statusCode = status_code,
               label = ''Recorded response ('' @ str_nat (length recs) @ '' similar)'',
               headers = cleaned,
               bodyType = ''INLINE'',
               filePath = '''',
               databucketID = '''',
               sendFileAsBody = False,
               rules = [],
               rulesOperator = ''OR'',
               disableTemplating = False,
               fallbackTo404 = False,
               is_default = True\<rparr>],
           enabled = True,
           responseMode = JNull\<rparr>, n2)))))))))))"

fun build_routes ::
  "pylib \<Rightarrow> nat \<Rightarrow> (string \<times> json list) list \<Rightarrow> py_error + route list \<times> nat" where
  "build_routes lib n [] = Inr ([], n)"
| "build_routes lib n (entry # grouped) =
     bind (build_route lib n entry) (\<lambda>(route, n').
     bind (build_routes lib n' grouped) (\<lambda>(routes, n'').
     Inr (route # routes, n'')))"

text \<open>
  The document written to the output file. Of its constant entries the model keeps the
  serving metadata; the TLS and proxy settings, all constants too, are left out.
\<close>

record environment =
  env_uuid :: string
  lastMigration :: int
  name :: string
  endpointPrefix :: string
  env_latency :: int
  port :: int
  hostname :: string
  routes :: "route list"
  proxyMode :: bool
  cors :: bool
  env_headers :: "(string \<times> string) list"

definition convert_recordings_to_mockoon ::
  "pylib \<Rightarrow> string list \<Rightarrow> string \<Rightarrow> py_error + environment" where
  "convert_recordings_to_mockoon lib input_file env_name =
     bind (read_recordings lib input_file) (\<lambda>recordings.
     bind (group_recordings lib [] recordings) (\<lambda>grouped.
     bind (build_routes lib 0 grouped) (\<lambda>(routes, n).
     Inr \<lparr>env_uuid = fst (generate_uuid lib n),
          lastMigration = 27,
          name = env_name,
          endpointPrefix = '''',
          env_latency = 0,
          port = 3000,
          hostname = ''0.0.0.0'',
          routes = routes,
          proxyMode = False,
          cors = True,
          env_headers =
            [(''Content-Type'', ''application/json''),
             (''Access-Control-Allow-Origin'', ''*''),
             (''Access-Control-Allow-Methods'', ''GET,POST,PUT,PATCH,DELETE,HEAD,OPTIONS''),
             (''Access-Control-Allow-Headers'', ''*'')]\<rparr>)))"

text \<open>
  What a route table says apart from its identifiers: for every route, in order, its
  method and endpoint template and the body, status and filtered headers of its
  response variants.
\<close>

abbreviation route_tuples ::
  "route \<Rightarrow> string \<times> string \<times> (json \<times> json \<times> mockoon_header list) list" where
  "route_tuples r \<equiv>
     (route_method r, endpoint r, map (\<lambda>rv. (body rv, statusCode rv, headers rv)) (responses r))"

section \<open>HTTP flows as the proxy scripts see them\<close>

text \<open>
  A header list is mitmproxy's \<^verbatim>\<open>Headers\<close>: an ordered list of fields whose
  names compare case-insensitively. \<^verbatim>\<open>headers.get(name, default)\<close> joins the
  values of all fields of that name with a comma and a space;
  \<^verbatim>\<open>headers[name] = value\<close> writes the value into the first field of that name
  (keeping that field's spelling), drops the other fields of that name, and appends a
  new field when there is none.
\<close>

type_synonym fields = "(string \<times> string) list"

definition get_all :: "fields \<Rightarrow> string \<Rightarrow> string list" where
  "get_all fs k = map snd (filter (\<lambda>(n, v). lower n = lower k) fs)"

definition headers_get :: "fields \<Rightarrow> string \<Rightarrow> string \<Rightarrow> string" where
  "headers_get fs k d = (case get_all fs k of [] \<Rightarrow> d | v # vs \<Rightarrow> join '', '' (v # vs))"

fun set_all :: "string \<Rightarrow> string list \<Rightarrow> fields \<Rightarrow> fields" where
  "set_all k vs [] = map (\<lambda>v. (k, v)) vs"
| "set_all k vs ((n, x) # fs) =
     (if lower n = lower k
      then (case vs of [] \<Rightarrow> set_all k [] fs | v # vs' \<Rightarrow> (n, v) # set_all k vs' fs)
      else (n, x) # set_all k vs fs)"

definition headers_set :: "fields \<Rightarrow> string \<Rightarrow> string \<Rightarrow> fields" where
  "headers_set fs k v = set_all k [v] fs"

text \<open>
  \<^verbatim>\<open>dict(headers)\<close>: one entry per name, under the spelling of its first
  field, holding the joined values. \<^verbatim>\<open>d.pop(key, None)\<close> on the resulting
  dict compares keys exactly.
\<close>

function headers_dict :: "fields \<Rightarrow> fields" where
  "headers_dict [] = []"
| "headers_dict ((n, v) # fs) =
     (n, join '', '' (v # get_all fs n)) # headers_dict (filter (\<lambda>(n', v'). lower n' \<noteq> lower n) fs)"
  by pat_completeness auto
termination
  by (relation "measure length") (auto simp: less_Suc_eq_le)

definition dict_pop :: "(string \<times> 'a) list \<Rightarrow> string \<Rightarrow> (string \<times> 'a) list" where
  "dict_pop d k = filter (\<lambda>(n, v). n \<noteq> k) d"

text \<open>
  The query of a request is a multi-dict with case-sensitive keys:
  \<^verbatim>\<open>query.get(k, default)\<close> is the first value of the key, and
  \<^verbatim>\<open>query.pop(k, None)\<close> removes every field of the key.
\<close>

definition query_contains :: "fields \<Rightarrow> string \<Rightarrow> bool" where
  "query_contains q k = (map_of q k \<noteq> None)"

definition query_get :: "fields \<Rightarrow> string \<Rightarrow> string \<Rightarrow> string" where
  "query_get q k d = (case map_of q k of None \<Rightarrow> d | Some v \<Rightarrow> v)"

definition query_pop :: "fields \<Rightarrow> string \<Rightarrow> fields" where
  "query_pop q k = filter (\<lambda>(n, v). n \<noteq> k) q"

text \<open>
  The request path and the query are two fields of the model. The body of a message is
  one string.

  The proxy keeps a message consistent when a script assigns to it: assigning the host
  or the port of a request rewrites an existing Host header, and assigning the body of a
  response refreshes its Content-Length. The model of the fallback script, whose
  properties concern the headers of the response, includes the body assignment
  (\<open>set_content\<close> below). The models of the two routing scripts and of the enhancer
  give the fields and the headers that the scripts write themselves.
\<close>

record request =
  req_method :: string
  scheme :: string
  host :: string
  req_port :: int
  req_path :: string
  query :: fields
  req_headers :: fields
  req_content :: string

record http_response =
  status_code :: int
  reason :: string
  content :: string
  resp_headers :: fields

record flow =
  request :: request
  response :: http_response

definition MOCKOON_URL :: string where
  "MOCKOON_URL = ''http://mockoon:3000''"

definition MOCKOON_HOST :: string where
  "MOCKOON_HOST = ''mockoon''"

definition MOCKOON_PORT :: int where
  "MOCKOON_PORT = 3000"

section \<open>Path patterns\<close>

text \<open>
  The regular expressions of the scripts have three shapes, and \<^verbatim>\<open>re.match\<close>
  (anchored at the start of the path) decides each of them as follows:
  \<^item> \<open>Exact s\<close> is \<^verbatim>\<open>^s$\<close>: the path is \<open>s\<close>, or \<open>s\<close> followed by one
    final line feed (which \<^verbatim>\<open>$\<close> tolerates);
  \<^item> \<open>Prefix s\<close> is \<^verbatim>\<open>^s.*\<close>: the path starts with \<open>s\<close>;
  \<^item> \<open>Contains s\<close> is \<^verbatim>\<open>.*s.*\<close>: \<open>s\<close> occurs in the first line of the
    path (the dot matches no line feed).

  The routing script, whose patterns are of the first two shapes, matches without a
  flag: \<open>re_match False\<close>. With \<open>ignorecase\<close> both sides are compared after
  \<open>lower\<close>, which is how \<^verbatim>\<open>re.IGNORECASE\<close> decides a path of ASCII
  characters; only the matcher of the recorder examples uses it.
\<close>

datatype pattern = Exact string | Prefix string | Contains string

fun occurs_in :: "string \<Rightarrow> string \<Rightarrow> bool" where
  "occurs_in s [] = (s = [])"
| "occurs_in s (c # cs) = (take (length s) (c # cs) = s \<or> occurs_in s cs)"

fun re_match :: "bool \<Rightarrow> pattern \<Rightarrow> string \<Rightarrow> bool" where
  "re_match ignorecase (Exact s) path =
     (let p = (if ignorecase then lower path else path);
          t = (if ignorecase then lower s else s)
      in p = t \<or> p = t @ [CHR 0x0A])"
| "re_match ignorecase (Prefix s) path =
     (let p = (if ignorecase then lower path else path);
          t = (if ignorecase then lower s else s)
      in take (length t) p = t)"
| "re_match ignorecase (Contains s) path =
     (let p = (if ignorecase then lower path else path);
          t = (if ignorecase then lower s else s)
      in occurs_in t (takeWhile (\<lambda>c. c \<noteq> CHR 0x0A) p))"

section \<open>Routing by pattern and override header (route\_to\_mockoon.py)\<close>

definition MOCK_ENDPOINTS :: "pattern list" where
  "MOCK_ENDPOINTS =
     [Exact ''/api/v1/auth/login'',
      Exact ''/api/v1/auth/register'',
      Exact ''/api/v1/user/profile'',
      Prefix ''/api/v1/users/'',
      Prefix ''/api/v1/products'',
      Prefix ''/api/v1/orders'']"

definition REAL_ENDPOINTS :: "pattern list" where
  "REAL_ENDPOINTS = [Exact ''/api/v1/health'', Exact ''/api/v1/metrics'']"

definition should_mock :: "string \<Rightarrow> bool" where
  "should_mock path =
     (if list_ex (\<lambda>pattern. re_match False pattern path) REAL_ENDPOINTS then False
      else if list_ex (\<lambda>pattern. re_match False pattern path) MOCK_ENDPOINTS then True
      else False)"

definition route_to_mockoon_request :: "flow \<Rightarrow> flow" where
  "route_to_mockoon_request flow =
     (let request_path = req_path (request flow);
          force_mock = (lower (headers_get (req_headers (request flow)) ''X-Force-Mock'' '''') = ''true'');
          force_real = (lower (headers_get (req_headers (request flow)) ''X-Force-Real'' '''') = ''true'')
      in if force_mock \<or> (should_mock request_path \<and> \<not> force_real)
         then flow\<lparr>request := (request flow)
                \<lparr>scheme := ''http'',
                 host := MOCKOON_HOST,
                 req_port := MOCKOON_PORT,
                 req_headers := headers_set (req_headers (request flow)) ''X-Mocked-By'' ''mitmproxy-mockoon''\<rparr>\<rparr>
         else flow)"

section \<open>Routing by mode header, query flag and scenario (conditional\_mock.py)\<close>

definition conditional_mock_request :: "flow \<Rightarrow> flow" where
  "conditional_mock_request flow =
     (let mock_mode = lower (headers_get (req_headers (request flow)) ''X-Mock-Mode'' '''');
          has_mock_param = (query_contains (query (request flow)) ''mock'' \<and>
             lower (query_get (query (request flow)) ''mock'' '''') \<in> set [''true'', ''1'', ''yes'']);
          test_scenario = headers_get (req_headers (request flow)) ''X-Test-Scenario'' '''';
          (should_mock, query') =
             (if mock_mode = ''mock'' \<or> mock_mode = ''true'' then (True, query (request flow))
              else if mock_mode = ''real'' \<or> mock_mode = ''false'' then (False, query (request flow))
              else if has_mock_param then (True, query_pop (query (request flow)) ''mock'')
              else if test_scenario \<noteq> [] then (True, query (request flow))
              else (False, query (request flow)));
          flow1 = flow\<lparr>request := (request flow)\<lparr>query := query'\<rparr>\<rparr>
      in if should_mock
         then (let hs1 = (if test_scenario \<noteq> []
                          then headers_set (req_headers (request flow1)) ''X-Mockoon-Scenario'' test_scenario
                          else req_headers (request flow1))
               in flow1\<lparr>request := (request flow1)
                    \<lparr>scheme := ''http'',
                     host := MOCKOON_HOST,
                     req_port := MOCKOON_PORT,
                     req_headers := headers_set hs1 ''X-Mocked-By'' ''mitmproxy-conditional''\<rparr>\<rparr>)
         else flow1)"

section \<open>Fallback to the mock backend (fallback\_mock.py)\<close>

definition FALLBACK_STATUS_CODES :: "int list" where
  "FALLBACK_STATUS_CODES = [500, 502, 503, 504]"

text \<open>
  The reply of \<^verbatim>\<open>requests.request\<close>. The call is a parameter of the model: given
  the method, the URL, the headers and the body it either fails (any exception of the
  transport: refused connection, timeout) or returns a reply. The text that
  \<^verbatim>\<open>str()\<close> gives for a query is a parameter as well.
\<close>

record mock_response =
  m_status_code :: int
  m_reason :: string
  m_content :: string
  m_headers :: fields

datatype requests_error = RequestException

text \<open>
  Assigning \<^verbatim>\<open>flow.response.content\<close> is a setter of the proxy: it stores the
  body encoded for the Content-Encoding of the response and keeps the headers in step
  with what it stored. It deletes the Content-Encoding header when it cannot encode for
  it, and it writes the length of the stored body into Content-Length (current versions
  leave Content-Length alone on a response with Transfer-Encoding). What the setter
  decides for given headers and a given body is a parameter of the model; what it then
  does to the header list is \<open>set_content\<close>. \<^verbatim>\<open>del headers[name]\<close> removes
  every field of the name.
\<close>

record content_bookkeeping =
  removes_content_encoding :: bool
  writes_content_length :: "string option"

definition headers_del :: "fields \<Rightarrow> string \<Rightarrow> fields" where
  "headers_del fs k = filter (\<lambda>(n, v). lower n \<noteq> lower k) fs"

definition set_content ::
  "(fields \<Rightarrow> string \<Rightarrow> content_bookkeeping) \<Rightarrow> http_response \<Rightarrow> string \<Rightarrow> http_response" where
  "set_content bookkeeping resp value =
     (let decision = bookkeeping (resp_headers resp) value;
          hs = (if removes_content_encoding decision
                then headers_del (resp_headers resp) ''content-encoding''
                else resp_headers resp);
          hs' = (case writes_content_length decision of
                   None \<Rightarrow> hs
                 | Some n \<Rightarrow> headers_set hs ''content-length'' n)
      in resp\<lparr>content := value, resp_headers := hs'\<rparr>)"

text \<open>The loop that copies the headers of the mock reply onto the response.\<close>

fun copy_mock_headers :: "fields \<Rightarrow> fields \<Rightarrow> fields" where
  "copy_mock_headers [] hs = hs"
| "copy_mock_headers ((key, v) # rest) hs =
     copy_mock_headers rest
       (if lower key \<notin> set [''content-encoding'', ''transfer-encoding'', ''content-length'']
        then headers_set hs key v else hs)"

text \<open>The request that the script sends to the mock backend, and what comes back.\<close>

definition mock_backend_reply ::
  "(fields \<Rightarrow> string) \<Rightarrow> (string \<Rightarrow> string \<Rightarrow> fields \<Rightarrow> string \<Rightarrow> requests_error + mock_response)
     \<Rightarrow> flow \<Rightarrow> requests_error + mock_response" where
  "mock_backend_reply query_str requests_request flow =
     (let mock_url = MOCKOON_URL @ req_path (request flow) @
            (if query (request flow) \<noteq> [] then ''?'' @ query_str (query (request flow)) else []);
          headers = dict_pop (headers_dict (req_headers (request flow))) ''Host''
      in requests_request (req_method (request flow)) mock_url headers (req_content (request flow)))"

definition fallback_mock_response ::
  "(fields \<Rightarrow> string) \<Rightarrow> (string \<Rightarrow> string \<Rightarrow> fields \<Rightarrow> string \<Rightarrow> requests_error + mock_response)
     \<Rightarrow> (fields \<Rightarrow> string \<Rightarrow> content_bookkeeping) \<Rightarrow> flow \<Rightarrow> flow" where
  "fallback_mock_response query_str requests_request bookkeeping flow =
     (if status_code (response flow) \<notin> set FALLBACK_STATUS_CODES then flow
      else
        (case mock_backend_reply query_str requests_request flow of
           Inl e \<Rightarrow> flow
         | Inr mock_response \<Rightarrow>
             if m_status_code mock_response = 404 then flow
             else
               (let replaced = set_content bookkeeping
                      ((response flow)
                         \<lparr>status_code := m_status_code mock_response,
                          reason := m_reason mock_response\<rparr>)
                      (m_content mock_response)
                in flow\<lparr>response := replaced
                     \<lparr>resp_headers :=
                        headers_set
                          (copy_mock_headers (m_headers mock_response) (resp_headers replaced))
                          ''X-Fallback-Mock'' ''true''\<rparr>\<rparr>)))"
section \<open>Enhancing real responses with mock data (enhance\_responses.py)\<close>

text \<open>
  \<^verbatim>\<open>d[k] = v\<close> on a dict: a known key keeps its place and takes the new value, a
  new key goes last. \<^verbatim>\<open>{**real_data, **enhance_data}\<close> starts from the
  entries of the first dict and stores the entries of the second one by one.
\<close>

fun dict_setitem :: "(string \<times> 'a) list \<Rightarrow> string \<Rightarrow> 'a \<Rightarrow> (string \<times> 'a) list" where
  "dict_setitem [] k v = [(k, v)]"
| "dict_setitem ((k', v') # d) k v =
     (if k' = k then (k', v) # d else (k', v') # dict_setitem d k v)"

definition dict_merge :: "(string \<times> 'a) list \<Rightarrow> (string \<times> 'a) list \<Rightarrow> (string \<times> 'a) list" where
  "dict_merge real_data enhance_data = fold (\<lambda>(k, v) d. dict_setitem d k v) enhance_data real_data"

text \<open>
  \<^verbatim>\<open>s in v\<close> for a string \<open>s\<close>: a key of a dict, an element of a list, a
  substring of a string; TypeError on a number, a boolean or None.
\<close>

fun py_in :: "string \<Rightarrow> json \<Rightarrow> py_error + bool" where
  "py_in s (JObj d) = Inr (map_of d s \<noteq> None)"
| "py_in s (JArr xs) = Inr (JStr s \<in> set xs)"
| "py_in s (JStr t) = Inr (occurs_in s t)"
| "py_in s _ = Inl TypeError"

text \<open>
  \<^verbatim>\<open>xs.extend(v)\<close> appends the elements of a list, the characters of a string
  or the keys of a dict; TypeError on a value that is not iterable.
\<close>

fun list_extend :: "json list \<Rightarrow> json \<Rightarrow> py_error + json list" where
  "list_extend xs (JArr ys) = Inr (xs @ ys)"
| "list_extend xs (JStr s) = Inr (xs @ map (\<lambda>c. JStr [c]) s)"
| "list_extend xs (JObj d) = Inr (xs @ map (\<lambda>(k, v). JStr k) d)"
| "list_extend xs _ = Inl TypeError"

text \<open>
  The reply of \<^verbatim>\<open>requests.get\<close>: its \<^verbatim>\<open>ok\<close> flag and what
  \<^verbatim>\<open>.json()\<close> decodes (\<open>None\<close> when it raises).
\<close>

record enhance_reply =
  ok :: bool
  reply_json :: "json option"

text \<open>
  The \<^verbatim>\<open>if\<close>/\<^verbatim>\<open>elif\<close> that merges the two values: the enhanced
  value, \<open>None\<close> when neither branch applies, or the exception that the
  \<^verbatim>\<open>elif\<close> branch raises.
\<close>

definition merge_enhancement :: "json \<Rightarrow> json \<Rightarrow> py_error + json option" where
  "merge_enhancement real_data enhance_data =
     (case (real_data, enhance_data) of
        (JObj r, JObj e) \<Rightarrow> Inr (Some (JObj (dict_merge r e)))
      | (JArr xs, _) \<Rightarrow>
          bind (py_in ''items'' enhance_data) (\<lambda>has_items.
            if has_items
            then bind (getitem enhance_data ''items'') (\<lambda>items.
                 bind (list_extend xs items) (\<lambda>xs'. Inr (Some (JArr xs'))))
            else Inr None)
      | _ \<Rightarrow> Inr None)"

definition enhance_responses_response ::
  "(string \<Rightarrow> json option) \<Rightarrow> (json \<Rightarrow> string)
     \<Rightarrow> (string \<Rightarrow> fields \<Rightarrow> requests_error + enhance_reply) \<Rightarrow> flow \<Rightarrow> flow" where
  "enhance_responses_response loads dumps requests_get flow =
     (if status_code (response flow) \<noteq> 200 then flow
      else if lower (headers_get (req_headers (request flow)) ''X-Enhance-Response'' '''') \<noteq> ''true''
      then flow
      else
        (case loads (content (response flow)) of
           None \<Rightarrow> flow
         | Some real_data \<Rightarrow>
            (case requests_get (MOCKOON_URL @ ''/enhance?path='' @ req_path (request flow))
                    [(''X-Original-Path'', req_path (request flow))] of
               Inl e \<Rightarrow> flow
             | Inr enhance_response \<Rightarrow>
                 if \<not> ok enhance_response then flow
                 else
                   (case reply_json enhance_response of
                      None \<Rightarrow> flow
                    | Some enhance_data \<Rightarrow>
                       (case merge_enhancement real_data enhance_data of
                          Inl e \<Rightarrow> flow
                        | Inr None \<Rightarrow> flow
                        | Inr (Some enhanced) \<Rightarrow>
                            flow\<lparr>response := (response flow)
                              \<lparr>content := dumps enhanced,
                               resp_headers :=
                                 headers_set (resp_headers (response flow)) ''X-Enhanced'' ''true''\<rparr>\<rparr>)))))"

section \<open>Recording selected exchanges (selective\_record.py)\<close>







section \<open>Concrete flows and replies\<close>

text \<open>
  A request for the health endpoint (an always-real pattern) that carries both override
  headers with the value \<open>true\<close>.
\<close>

definition forced_health_flow :: flow where
  "forced_health_flow =
     \<lparr>request = \<lparr>req_method = ''GET'', scheme = ''https'', host = ''api.example.com'',
                  req_port = 443, req_path = ''/api/v1/health'', query = [],
                  req_headers = [(''X-Force-Mock'', ''True''), (''X-Force-Real'', ''true'')],
                  req_content = ''''\<rparr>,
      response = \<lparr>status_code = 0, reason = '''', content = '''', resp_headers = []\<rparr>\<rparr>"

text \<open>The same request carrying \<^verbatim>\<open>X-Force-Mock: 1\<close> and no other override.\<close>

definition force_mock_1_flow :: flow where
  "force_mock_1_flow =
     \<lparr>request = \<lparr>req_method = ''GET'', scheme = ''https'', host = ''api.example.com'',
                  req_port = 443, req_path = ''/api/v1/health'', query = [],
                  req_headers = [(''X-Force-Mock'', ''1'')],
                  req_content = ''''\<rparr>,
      response = \<lparr>status_code = 0, reason = '''', content = '''', resp_headers = []\<rparr>\<rparr>"

text \<open>
  A request in real mode (the header value in mixed case) that also sets the mock query
  flag and names a test scenario.
\<close>

definition real_mode_flow :: flow where
  "real_mode_flow =
     \<lparr>request = \<lparr>req_method = ''GET'', scheme = ''https'', host = ''api.example.com'',
                  req_port = 443, req_path = ''/api/v1/users/42'', query = [(''mock'', ''true'')],
                  req_headers = [(''x-mock-mode'', ''Real''), (''X-Test-Scenario'', ''server_error'')],
                  req_content = ''''\<rparr>,
      response = \<lparr>status_code = 0, reason = '''', content = '''', resp_headers = []\<rparr>\<rparr>"

text \<open>A flow whose real backend answered 503, and one whose real backend answered 502.\<close>

definition unavailable_flow :: flow where
  "unavailable_flow =
     \<lparr>request = \<lparr>req_method = ''GET'', scheme = ''https'', host = ''api.example.com'',
                  req_port = 443, req_path = ''/api/v1/users/42'', query = [],
                  req_headers = [(''Host'', ''api.example.com''), (''Accept'', ''*/*'')],
                  req_content = ''''\<rparr>,
      response = \<lparr>status_code = 503, reason = ''Service Unavailable'',
                   content = ''upstream down'',
                   resp_headers = [(''Content-Type'', ''text/plain''), (''Retry-After'', ''30'')]\<rparr>\<rparr>"

definition bad_gateway_flow :: flow where
  "bad_gateway_flow =
     \<lparr>request = \<lparr>req_method = ''GET'', scheme = ''https'', host = ''api.example.com'',
                  req_port = 443, req_path = ''/api/v1/users/42'', query = [],
                  req_headers = [(''Host'', ''api.example.com''), (''Accept'', ''*/*'')],
                  req_content = ''''\<rparr>,
      response = \<lparr>status_code = 502, reason = ''Bad Gateway'',
                   content = ''bad gateway'',
                   resp_headers = [(''Content-Type'', ''text/plain'')]\<rparr>\<rparr>"

text \<open>
  Mock backends: one that knows no route, one that cannot be reached, and two that
  answer 200 with a body and with connection-scoped headers among their own.
\<close>

definition no_query_text :: "fields \<Rightarrow> string" where
  "no_query_text q = []"

definition backend_without_route ::
  "string \<Rightarrow> string \<Rightarrow> fields \<Rightarrow> string \<Rightarrow> requests_error + mock_response" where
  "backend_without_route m url hs data =
     Inr \<lparr>m_status_code = 404, m_reason = ''Not Found'', m_content = ''no route'', m_headers = []\<rparr>"

definition backend_unreachable ::
  "string \<Rightarrow> string \<Rightarrow> fields \<Rightarrow> string \<Rightarrow> requests_error + mock_response" where
  "backend_unreachable m url hs data = Inl RequestException"

definition backend_closing ::
  "string \<Rightarrow> string \<Rightarrow> fields \<Rightarrow> string \<Rightarrow> requests_error + mock_response" where
  "backend_closing m url hs data =
     Inr \<lparr>m_status_code = 200, m_reason = ''OK'', m_content = ''mocked'',
          m_headers = [(''Content-Type'', ''application/json''), (''Content-Length'', ''6''),
                       (''Connection'', ''close'')]\<rparr>"

definition backend_keep_alive ::
  "string \<Rightarrow> string \<Rightarrow> fields \<Rightarrow> string \<Rightarrow> requests_error + mock_response" where
  "backend_keep_alive m url hs data =
     Inr \<lparr>m_status_code = 200, m_reason = ''OK'', m_content = ''mocked'',
          m_headers = [(''Content-Type'', ''application/json''), (''Transfer-Encoding'', ''chunked''),
                       (''Keep-Alive'', ''timeout=5''), (''Host'', ''mockoon:3000'')]\<rparr>"

text \<open>
  What the body setter of the proxy decides for a response that has neither a
  Content-Encoding nor a Transfer-Encoding header, as the responses of these examples:
  the body is stored as it is, no header is deleted, and Content-Length becomes the
  length of the body.
\<close>

definition identity_bookkeeping :: "fields \<Rightarrow> string \<Rightarrow> content_bookkeeping" where
  "identity_bookkeeping hs data =
     \<lparr>removes_content_encoding = False, writes_content_length = Some (str_nat (length data))\<rparr>"

text \<open>
  Flows for the enhancer: a 200 response with a JSON object as body, asked for
  enhancement with the header value \<open>true\<close> and with the header value \<open>1\<close>, and
  a 200 response with a JSON array as body. The codec of these examples knows the texts
  that occur in them.
\<close>

definition profile_flow :: "string \<Rightarrow> flow" where
  \<open>profile_flow enhance =
     \<lparr>request = \<lparr>req_method = ''GET'', scheme = ''https'', host = ''api.example.com'',
                  req_port = 443, req_path = ''/api/v1/user/profile'', query = [],
                  req_headers = [(''X-Enhance-Response'', enhance)],
                  req_content = ''''\<rparr>,
      response = \<lparr>status_code = 200, reason = ''OK'',
                   content = ''{"id": 1, "name": "real"}'',
                   resp_headers = [(''Content-Type'', ''application/json'')]\<rparr>\<rparr>\<close>

definition orders_flow :: flow where
  \<open>orders_flow =
     \<lparr>request = \<lparr>req_method = ''GET'', scheme = ''https'', host = ''api.example.com'',
                  req_port = 443, req_path = ''/api/v1/orders'', query = [],
                  req_headers = [(''X-Enhance-Response'', ''TRUE'')],
                  req_content = ''''\<rparr>,
      response = \<lparr>status_code = 200, reason = ''OK'',
                   content = ''[1, 2]'',
                   resp_headers = [(''Content-Type'', ''application/json'')]\<rparr>\<rparr>\<close>

definition example_loads :: "string \<Rightarrow> json option" where
  \<open>example_loads =
     map_of [(''{"id": 1, "name": "real"}'', JObj [(''id'', JInt 1), (''name'', JStr ''real'')]),
             (''[1, 2]'', JArr [JInt 1, JInt 2])]\<close>

definition example_dumps :: "json \<Rightarrow> string" where
  \<open>example_dumps v =
     (case map_of
        [(JObj [(''id'', JInt 1), (''name'', JStr ''mock''), (''vip'', JBool True)],
          ''{"id": 1, "name": "mock", "vip": true}''),
         (JArr [JInt 1, JInt 2, JInt 3, JInt 4], ''[1, 2, 3, 4]'')] v of
        None \<Rightarrow> []
      | Some s \<Rightarrow> s)\<close>

text \<open>
  Mock backends for the enhancer: supplemental values that are an object, an object
  with a list under \<open>items\<close>, and an object with a number under \<open>items\<close>.
\<close>

definition supplement_object :: "string \<Rightarrow> fields \<Rightarrow> requests_error + enhance_reply" where
  "supplement_object url hs =
     Inr \<lparr>ok = True, reply_json = Some (JObj [(''name'', JStr ''mock''), (''vip'', JBool True)])\<rparr>"

definition supplement_items :: "string \<Rightarrow> fields \<Rightarrow> requests_error + enhance_reply" where
  "supplement_items url hs =
     Inr \<lparr>ok = True, reply_json = Some (JObj [(''items'', JArr [JInt 3, JInt 4])])\<rparr>"

definition supplement_count :: "string \<Rightarrow> fields \<Rightarrow> requests_error + enhance_reply" where
  "supplement_count url hs =
     Inr \<lparr>ok = True, reply_json = Some (JObj [(''items'', JInt 5)])\<rparr>"

text \<open>
  A recorded log, as the recorder writes it: two exchanges for two users, and a later
  second exchange for the first user. The lines are written without their final line
  feed, which neither \<^verbatim>\<open>strip\<close> nor \<^verbatim>\<open>json.loads\<close> regards. The codec
  of the example decodes these three lines and encodes the bodies of the first two;
  every other text is malformed for it.
\<close>

definition users_42_line :: string where
  \<open>users_42_line = ''{"timestamp": "2025-01-01T10:00:00", "request": {"method": "GET", "url": "https://api.example.com/api/v1/users/42", "path": "/api/v1/users/42", "query": {}, "headers": {"Accept": "*/*"}, "body": ""}, "response": {"status_code": 200, "headers": {"Content-Type": "application/json", "Content-Length": "10"}, "body": {"id": 42}}}''\<close>

definition users_42 :: json where
  "users_42 = JObj
     [(''timestamp'', JStr ''2025-01-01T10:00:00''),
      (''request'', JObj
         [(''method'', JStr ''GET''),
          (''url'', JStr ''https://api.example.com/api/v1/users/42''),
          (''path'', JStr ''/api/v1/users/42''),
          (''query'', JObj []),
          (''headers'', JObj [(''Accept'', JStr ''*/*'')]),
          (''body'', JStr '''')]),
      (''response'', JObj
         [(''status_code'', JInt 200),
          (''headers'', JObj [(''Content-Type'', JStr ''application/json''),
                              (''Content-Length'', JStr ''10'')]),
          (''body'', JObj [(''id'', JInt 42)])])]"

definition users_17_line :: string where
  \<open>users_17_line = ''{"timestamp": "2025-01-01T10:00:05", "request": {"method": "GET", "url": "https://api.example.com/api/v1/users/17", "path": "/api/v1/users/17", "query": {}, "headers": {"Accept": "*/*"}, "body": ""}, "response": {"status_code": 200, "headers": {"Content-Type": "application/json", "Content-Length": "10"}, "body": {"id": 17}}}''\<close>

definition users_17 :: json where
  "users_17 = JObj
     [(''timestamp'', JStr ''2025-01-01T10:00:05''),
      (''request'', JObj
         [(''method'', JStr ''GET''),
          (''url'', JStr ''https://api.example.com/api/v1/users/17''),
          (''path'', JStr ''/api/v1/users/17''),
          (''query'', JObj []),
          (''headers'', JObj [(''Accept'', JStr ''*/*'')]),
          (''body'', JStr '''')]),
      (''response'', JObj
         [(''status_code'', JInt 200),
          (''headers'', JObj [(''Content-Type'', JStr ''application/json''),
                              (''Content-Length'', JStr ''10'')]),
          (''body'', JObj [(''id'', JInt 17)])])]"

definition users_42_later_line :: string where
  \<open>users_42_later_line = ''{"timestamp": "2025-01-01T10:00:09", "request": {"method": "GET", "url": "https://api.example.com/api/v1/users/42", "path": "/api/v1/users/42", "query": {}, "headers": {"Accept": "*/*"}, "body": ""}, "response": {"status_code": 404, "headers": {"Content-Type": "text/plain", "Connection": "close"}, "body": "gone"}}''\<close>

definition users_42_later :: json where
  "users_42_later = JObj
     [(''timestamp'', JStr ''2025-01-01T10:00:09''),
      (''request'', JObj
         [(''method'', JStr ''GET''),
          (''url'', JStr ''https://api.example.com/api/v1/users/42''),
          (''path'', JStr ''/api/v1/users/42''),
          (''query'', JObj []),
          (''headers'', JObj [(''Accept'', JStr ''*/*'')]),
          (''body'', JStr '''')]),
      (''response'', JObj
         [(''status_code'', JInt 404),
          (''headers'', JObj [(''Content-Type'', JStr ''text/plain''),
                              (''Connection'', JStr ''close'')]),
          (''body'', JStr ''gone'')])]"

text \<open>
  The runtime of the examples, whose texts are ASCII: on such text
  \<^verbatim>\<open>isdigit\<close> asks for at least one character, all of them among 0 to 9, and
  \<^verbatim>\<open>strip\<close> removes tabs, line feeds, vertical tabs, form feeds, carriage
  returns, the four separators 0x1C to 0x1F and spaces from both ends.
\<close>

definition ascii_isdigit :: "string \<Rightarrow> bool" where
  "ascii_isdigit s = (s \<noteq> [] \<and> list_all (\<lambda>c. c \<in> set ''0123456789'') s)"

definition ascii_isspace :: "char \<Rightarrow> bool" where
  "ascii_isspace c =
     (c \<in> set [CHR 0x09, CHR 0x0A, CHR 0x0B, CHR 0x0C, CHR 0x0D,
                CHR 0x1C, CHR 0x1D, CHR 0x1E, CHR 0x1F, CHR 0x20])"

definition ascii_strip :: "string \<Rightarrow> string" where
  "ascii_strip s = rev (dropWhile ascii_isspace (rev (dropWhile ascii_isspace s)))"

definition example_lib :: pylib where
  \<open>example_lib =
     \<lparr>json_loads = map_of [(users_42_line, users_42), (users_17_line, users_17),
                            (users_42_later_line, users_42_later)],
      json_dumps_indent2 =
        (\<lambda>v. case map_of [(JObj [(''id'', JInt 42)], ''{\<newline>  "id": 42\<newline>}''),
                           (JObj [(''id'', JInt 17)], ''{\<newline>  "id": 17\<newline>}'')] v of
                None \<Rightarrow> []
              | Some s \<Rightarrow> s),
      str_of = (\<lambda>v. []),
      uuid4 = (\<lambda>n. ''uuid-'' @ str_nat n),
      str_lower = lower,
      str_upper = upper,
      str_isdigit = ascii_isdigit,
      str_strip = ascii_strip\<rparr>\<close>







section \<open>Header lists: reading after writing\<close>

lemma get_all_set_all:
  "get_all (set_all k vs fs) k' = (if lower k' = lower k then vs else get_all fs k')"
  by (induction fs arbitrary: vs) (auto simp: get_all_def comp_def split: list.splits)

lemma get_all_headers_set:
  "get_all (headers_set fs k v) k' = (if lower k' = lower k then [v] else get_all fs k')"
  by (simp add: headers_set_def get_all_set_all)

lemma filter_set_all_other:
  "\<not> P (lower k) \<Longrightarrow>
   filter (\<lambda>(n, v). P (lower n)) (set_all k vs fs) = filter (\<lambda>(n, v). P (lower n)) fs"
  by (induction fs arbitrary: vs) (auto split: list.splits)

lemma get_all_headers_del:
  "get_all (headers_del fs k) k' = (if lower k' = lower k then [] else get_all fs k')"
  by (induction fs) (auto simp: get_all_def headers_del_def)

section \<open>The body setter of the proxy\<close>

lemma set_content_fields:
  "content (set_content bookkeeping resp data) = data"
  "status_code (set_content bookkeeping resp data) = status_code resp"
  "reason (set_content bookkeeping resp data) = reason resp"
  by (simp_all add: set_content_def Let_def)

lemma get_all_set_content:
  assumes "lower hname \<noteq> lower ''content-encoding''" and "lower hname \<noteq> lower ''content-length''"
  shows "get_all (resp_headers (set_content bookkeeping resp data)) hname =
         get_all (resp_headers resp) hname"
  using assms
  by (simp add: set_content_def Let_def get_all_headers_set get_all_headers_del
        split: option.splits)

lemma resp_headers_set_content_update:
  "resp_headers (set_content bookkeeping (resp\<lparr>status_code := s, reason := r\<rparr>) data) =
   resp_headers (set_content bookkeeping resp data)"
  by (simp add: set_content_def Let_def split: option.splits)

section \<open>The header copy of the fallback script\<close>

lemma get_all_copy_mock_headers:
  "get_all (copy_mock_headers ms hs) hname =
     (case filter (\<lambda>(n, v). lower n = lower hname \<and>
                     lower n \<notin> set [''content-encoding'', ''transfer-encoding'', ''content-length'']) ms of
        [] \<Rightarrow> get_all hs hname
      | f # fs \<Rightarrow> [snd (last (f # fs))])"
proof (induction ms arbitrary: hs)
  case Nil
  show ?case by simp
next
  case (Cons m ms)
  obtain n v where m: "m = (n, v)" by (cases m)
  show ?case
    unfolding m copy_mock_headers.simps Cons.IH
    by (auto simp: get_all_headers_set split: list.splits)
qed

lemma filter_copy_mock_headers:
  "filter (\<lambda>(n, v). lower n \<in> set [''content-encoding'', ''transfer-encoding'', ''content-length''])
     (copy_mock_headers ms hs) =
   filter (\<lambda>(n, v). lower n \<in> set [''content-encoding'', ''transfer-encoding'', ''content-length'']) hs"
proof (induction ms arbitrary: hs)
  case Nil
  show ?case by simp
next
  case (Cons m ms)
  obtain k v where m: "m = (k, v)" by (cases m)
  have keep: "lower k \<notin> set [''content-encoding'', ''transfer-encoding'', ''content-length''] \<Longrightarrow>
      filter (\<lambda>(n, v). lower n \<in> set [''content-encoding'', ''transfer-encoding'', ''content-length''])
        (headers_set hs k v) =
      filter (\<lambda>(n, v). lower n \<in> set [''content-encoding'', ''transfer-encoding'', ''content-length'']) hs"
    unfolding headers_set_def
    by (rule filter_set_all_other
          [where P = "\<lambda>x. x \<in> set [''content-encoding'', ''transfer-encoding'', ''content-length'']"])
  show ?case
    unfolding m copy_mock_headers.simps Cons.IH
    using keep by (cases "lower k \<notin> set [''content-encoding'', ''transfer-encoding'', ''content-length'']") simp_all
qed

section \<open>The compiler, step by step\<close>

subsection \<open>Reading the log\<close>

lemma read_recordings_eq:
  "read_recordings lib input_file =
     (if \<exists>line \<in> set input_file. str_strip lib line \<noteq> [] \<and> json_loads lib line = None
      then Inl JSONDecodeError
      else Inr (map (\<lambda>line. the (json_loads lib line))
                  (filter (\<lambda>line. str_strip lib line \<noteq> []) input_file)))"
proof (induction input_file)
  case Nil
  show ?case by simp
next
  case (Cons line input_file)
  show ?case
  proof (cases "str_strip lib line = []")
    case True
    then show ?thesis by (simp add: Cons.IH)
  next
    case False
    show ?thesis
    proof (cases "json_loads lib line")
      case None
      with False show ?thesis by auto
    next
      case (Some rec)
      with False show ?thesis by (simp add: Cons.IH bind_def)
    qed
  qed
qed

lemma read_recordings_skips_blank:
  "read_recordings lib (filter (\<lambda>line. str_strip lib line \<noteq> []) input_file) =
   read_recordings lib input_file"
  unfolding read_recordings_eq by auto

subsection \<open>Grouping\<close>

lemma map_fst_grouped_append:
  "map fst (grouped_append g k r) = (if k \<in> set (map fst g) then map fst g else map fst g @ [k])"
  by (induction g k r rule: grouped_append.induct) auto


lemma first_seen_snoc:
  "rev (remdups (rev (ks @ [k]))) =
     (if k \<in> set ks then rev (remdups (rev ks)) else rev (remdups (rev ks)) @ [k])"
  by simp





subsection \<open>Building the routes\<close>

lemma build_route_Inr:
  assumes "build_route lib n (key, recs) = Inr (r, n')"
  shows "\<exists>m path first rest resp b status_code hs cleaned.
     split_key key = Inr (m, path) \<and> recs = first # rest \<and>
     getitem first ''response'' = Inr resp \<and> getitem resp ''body'' = Inr b \<and>
     getitem resp ''status_code'' = Inr status_code \<and> getitem resp ''headers'' = Inr hs \<and>
     clean_headers lib hs = Inr cleaned \<and>
     route_method r = m \<and>
     endpoint r = lstrip CHR ''/'' (determine_endpoint lib path) \<and>
     documentation r = ''Recorded: '' @ str_upper lib m @ '' '' @ path \<and>
     uuid r = uuid4 lib n \<and>
     (\<exists>rv. responses r = [rv] \<and> rv_uuid rv = uuid4 lib (Suc n) \<and>
           body rv = response_body lib b \<and> statusCode rv = status_code \<and>
           label rv = ''Recorded response ('' @ str_nat (length recs) @ '' similar)'' \<and>
           headers rv = cleaned) \<and>
     n' = Suc (Suc n)"
  using assms
  by (auto simp: build_route_def bind_def first_recording_def generate_uuid_def
        split: sum.splits prod.splits list.splits)

lemma build_routes_Inr:
  "build_routes lib n grouped = Inr (rs, n') \<Longrightarrow>
   list_all2 (\<lambda>r entry. \<exists>m m'. build_route lib m entry = Inr (r, m')) rs grouped"
proof (induction grouped arbitrary: n rs)
  case Nil
  then show ?case by simp
next
  case (Cons entry grouped)
  from Cons.prems obtain r n1 rs' where
    r: "build_route lib n entry = Inr (r, n1)" and
    rest: "build_routes lib n1 grouped = Inr (rs', n')" and
    rs: "rs = r # rs'"
    by (auto simp: bind_def split: sum.splits prod.splits)
  from Cons.IH [OF rest] r rs show ?case by auto
qed

lemma convert_Inr:
  assumes "convert_recordings_to_mockoon lib input_file nm = Inr env"
  shows "\<exists>recordings grouped n.
     read_recordings lib input_file = Inr recordings \<and>
     group_recordings lib [] recordings = Inr grouped \<and>
     build_routes lib 0 grouped = Inr (routes env, n)"
  using assms
  by (auto simp: convert_recordings_to_mockoon_def bind_def split: sum.splits prod.splits)

lemma clean_headers_excluded:
  "clean_headers lib hs = Inr cleaned \<Longrightarrow> \<forall>h \<in> set cleaned. str_lower lib (hkey h) \<notin> set exclude_headers"
  by (cases hs) auto

section \<open>The conditional engine: real mode takes precedence\<close>

text \<open>
  C10: in the conditional engine, a request whose X-Mock-Mode value is \<open>real\<close> or
  \<open>false\<close> (in any letter case) goes to the real backend: the flow is left as it
  came, whatever the mock query flag and the X-Test-Scenario header say.
\<close>

theorem conditional_real_mode_wins:
  assumes "lower (headers_get (req_headers (request flow)) ''X-Mock-Mode'' '''') = ''real'' \<or>
           lower (headers_get (req_headers (request flow)) ''X-Mock-Mode'' '''') = ''false''"
  shows "conditional_mock_request flow = flow"
  using assms by (auto simp: conditional_mock_request_def Let_def)

text \<open>
  C10, at a concrete flow: X-Mock-Mode is \<open>Real\<close>, the query says \<open>mock=true\<close>
  and a scenario is named.
\<close>

theorem conditional_real_mode_wins_witness:
  "lower (headers_get (req_headers (request real_mode_flow)) ''X-Mock-Mode'' '''') = ''real'' \<and>
   query_get (query (request real_mode_flow)) ''mock'' '''' = ''true'' \<and>
   headers_get (req_headers (request real_mode_flow)) ''X-Test-Scenario'' '''' = ''server_error'' \<and>
   conditional_mock_request real_mode_flow = real_mode_flow"
proof -
  have m: "lower (headers_get (req_headers (request real_mode_flow)) ''X-Mock-Mode'' '''') = ''real''"
    by code_simp
  have q: "query_get (query (request real_mode_flow)) ''mock'' '''' = ''true''"
    by code_simp
  have s: "headers_get (req_headers (request real_mode_flow)) ''X-Test-Scenario'' '''' = ''server_error''"
    by code_simp
  from m have "conditional_mock_request real_mode_flow = real_mode_flow"
    by (intro conditional_real_mode_wins disjI1)
  with m q s show ?thesis by blast
qed

section \<open>Fallback: the original error stands\<close>

text \<open>
  C5: when the real backend answered with a status of the fallback set and the mock
  backend either cannot be reached or answers 404, the flow is returned as it came: the
  original error response stands, and no X-Fallback-Mock header is added.
\<close>

theorem fallback_keeps_original_error:
  assumes "status_code (response flow) \<in> set FALLBACK_STATUS_CODES"
    and "case mock_backend_reply query_str requests_request flow of
           Inl transport_error \<Rightarrow> True
         | Inr mock_response \<Rightarrow> m_status_code mock_response = 404"
  shows "fallback_mock_response query_str requests_request bookkeeping flow = flow \<and>
         get_all (resp_headers (response (fallback_mock_response query_str requests_request bookkeeping flow)))
           ''X-Fallback-Mock'' =
         get_all (resp_headers (response flow)) ''X-Fallback-Mock''"
  using assms by (auto simp: fallback_mock_response_def split: sum.splits)

text \<open>
  C5, at a concrete flow: a 503 response survives a mock backend without a route, and a
  mock backend that is down.
\<close>

theorem fallback_keeps_original_error_witness:
  "status_code (response unavailable_flow) = 503 \<and>
   fallback_mock_response no_query_text backend_without_route identity_bookkeeping unavailable_flow = unavailable_flow \<and>
   fallback_mock_response no_query_text backend_unreachable identity_bookkeeping unavailable_flow = unavailable_flow \<and>
   get_all (resp_headers (response (fallback_mock_response no_query_text backend_without_route identity_bookkeeping unavailable_flow)))
     ''X-Fallback-Mock'' = []"
proof -
  have st: "status_code (response unavailable_flow) = 503"
    by (simp add: unavailable_flow_def)
  then have s: "status_code (response unavailable_flow) \<in> set FALLBACK_STATUS_CODES"
    by (simp add: FALLBACK_STATUS_CODES_def)
  have r404: "mock_backend_reply no_query_text backend_without_route unavailable_flow =
                Inr \<lparr>m_status_code = 404, m_reason = ''Not Found'', m_content = ''no route'', m_headers = []\<rparr>"
    by (simp add: mock_backend_reply_def backend_without_route_def Let_def)
  have rdown: "mock_backend_reply no_query_text backend_unreachable unavailable_flow = Inl RequestException"
    by (simp add: mock_backend_reply_def backend_unreachable_def Let_def)
  have none: "get_all (resp_headers (response unavailable_flow)) ''X-Fallback-Mock'' = []"
    by code_simp
  have a: "fallback_mock_response no_query_text backend_without_route identity_bookkeeping unavailable_flow = unavailable_flow \<and>
           get_all (resp_headers (response (fallback_mock_response no_query_text backend_without_route identity_bookkeeping unavailable_flow)))
             ''X-Fallback-Mock'' = get_all (resp_headers (response unavailable_flow)) ''X-Fallback-Mock''"
    by (rule fallback_keeps_original_error [OF s]) (simp add: r404)
  have b: "fallback_mock_response no_query_text backend_unreachable identity_bookkeeping unavailable_flow = unavailable_flow \<and>
           get_all (resp_headers (response (fallback_mock_response no_query_text backend_unreachable identity_bookkeeping unavailable_flow)))
             ''X-Fallback-Mock'' = get_all (resp_headers (response unavailable_flow)) ''X-Fallback-Mock''"
    by (rule fallback_keeps_original_error [OF s]) (simp add: rdown)
  from st a b none show ?thesis by simp
qed

section \<open>Pattern routing: the force-mock header\<close>

text \<open>
  C6 as stated fails: a request that carries X-Force-Mock with a value other than
  \<open>true\<close> (here \<open>1\<close>) is not forced; on the always-real health path it is
  left untouched and goes to the real backend.
\<close>

theorem force_mock_other_value_counterexample:
  "get_all (req_headers (request force_mock_1_flow)) ''X-Force-Mock'' = [''1''] \<and>
   route_to_mockoon_request force_mock_1_flow = force_mock_1_flow \<and>
   host (request (route_to_mockoon_request force_mock_1_flow)) = ''api.example.com''"
  by code_simp

text \<open>
  C6, amended: a request whose X-Force-Mock value is \<open>true\<close> (in any letter case)
  is redirected to the mock backend, whatever its path and whatever X-Force-Real says.
\<close>

theorem force_mock_true_wins:
  assumes "lower (headers_get (req_headers (request flow)) ''X-Force-Mock'' '''') = ''true''"
  shows "scheme (request (route_to_mockoon_request flow)) = ''http'' \<and>
         host (request (route_to_mockoon_request flow)) = MOCKOON_HOST \<and>
         req_port (request (route_to_mockoon_request flow)) = MOCKOON_PORT \<and>
         get_all (req_headers (request (route_to_mockoon_request flow))) ''X-Mocked-By'' =
           [''mitmproxy-mockoon'']"
  using assms by (simp add: route_to_mockoon_request_def Let_def get_all_headers_set)

text \<open>
  C6, at a concrete request: the health path (an always-real pattern) with both
  X-Force-Mock and X-Force-Real set to true is sent to the mock backend.
\<close>

theorem force_mock_true_wins_witness:
  "lower (headers_get (req_headers (request forced_health_flow)) ''X-Force-Mock'' '''') = ''true'' \<and>
   lower (headers_get (req_headers (request forced_health_flow)) ''X-Force-Real'' '''') = ''true'' \<and>
   list_ex (\<lambda>pattern. re_match False pattern (req_path (request forced_health_flow))) REAL_ENDPOINTS \<and>
   host (request (route_to_mockoon_request forced_health_flow)) = MOCKOON_HOST \<and>
   req_port (request (route_to_mockoon_request forced_health_flow)) = MOCKOON_PORT"
proof -
  have m: "lower (headers_get (req_headers (request forced_health_flow)) ''X-Force-Mock'' '''') = ''true''"
    by code_simp
  have r: "lower (headers_get (req_headers (request forced_health_flow)) ''X-Force-Real'' '''') = ''true''"
    by code_simp
  have d: "list_ex (\<lambda>pattern. re_match False pattern (req_path (request forced_health_flow))) REAL_ENDPOINTS"
    by code_simp
  from force_mock_true_wins [OF m] m r d show ?thesis by blast
qed

section \<open>The recorder: which exchanges are recorded\<close>



section \<open>Fallback: the mock reply replaces the error\<close>

text \<open>
  C4 as stated fails in its parenthesis: the script leaves out three headers of the
  mock reply (content-encoding, transfer-encoding, content-length), not the six
  connection-scoped ones. A 502 response is replaced by the mock reply 200, and the
  Keep-Alive and Host headers of the mock reply reach the client.
\<close>

theorem fallback_copies_keep_alive_counterexample:
  "status_code (response bad_gateway_flow) = 502 \<and>
   status_code (response (fallback_mock_response no_query_text backend_keep_alive identity_bookkeeping bad_gateway_flow)) = 200 \<and>
   lower ''Keep-Alive'' \<in> set exclude_headers \<and>
   get_all (resp_headers (response
       (fallback_mock_response no_query_text backend_keep_alive identity_bookkeeping bad_gateway_flow))) ''Keep-Alive'' =
     [''timeout=5''] \<and>
   lower ''Host'' \<in> set exclude_headers \<and>
   get_all (resp_headers (response
       (fallback_mock_response no_query_text backend_keep_alive identity_bookkeeping bad_gateway_flow))) ''Host'' =
     [''mockoon:3000'']"
  by code_simp

text \<open>
  C4, amended: when the real backend answered with a status of the fallback set and
  the mock backend answers with a status other than 404, the response takes the status,
  reason and body of the mock reply and carries X-Fallback-Mock: true. The headers of the
  mock reply are copied except content-encoding, transfer-encoding and content-length:
  every header name other than these three and the tag reads as the last mock header of
  that name, and as in the original response when the mock reply has none. The request
  is untouched.
\<close>

theorem fallback_replaces_response:
  assumes "status_code (response flow) \<in> set FALLBACK_STATUS_CODES"
    and "mock_backend_reply query_str requests_request flow = Inr mock"
    and "m_status_code mock \<noteq> 404"
  shows "request (fallback_mock_response query_str requests_request bookkeeping flow) = request flow \<and>
     status_code (response (fallback_mock_response query_str requests_request bookkeeping flow)) = m_status_code mock \<and>
     reason (response (fallback_mock_response query_str requests_request bookkeeping flow)) = m_reason mock \<and>
     content (response (fallback_mock_response query_str requests_request bookkeeping flow)) = m_content mock \<and>
     get_all (resp_headers (response (fallback_mock_response query_str requests_request bookkeeping flow)))
       ''X-Fallback-Mock'' = [''true''] \<and>
     (\<forall>hname.
        lower hname \<noteq> ''x-fallback-mock'' \<and>
        lower hname \<notin> set [''content-encoding'', ''transfer-encoding'', ''content-length''] \<longrightarrow>
        get_all (resp_headers (response (fallback_mock_response query_str requests_request bookkeeping flow))) hname =
          (case filter (\<lambda>(n, v). lower n = lower hname) (m_headers mock) of
             [] \<Rightarrow> get_all (resp_headers (response flow)) hname
           | f # fs \<Rightarrow> [snd (last (f # fs))]))"
proof -
  let ?replaced = "set_content bookkeeping
      ((response flow)\<lparr>status_code := m_status_code mock, reason := m_reason mock\<rparr>)
      (m_content mock)"
  have low: "lower ''X-Fallback-Mock'' = ''x-fallback-mock''"
    by code_simp
  have eq: "fallback_mock_response query_str requests_request bookkeeping flow =
      flow\<lparr>response := ?replaced
        \<lparr>resp_headers := headers_set
            (copy_mock_headers (m_headers mock) (resp_headers ?replaced))
            ''X-Fallback-Mock'' ''true''\<rparr>\<rparr>"
    using assms by (simp add: fallback_mock_response_def Let_def)
  have copied: "filter (\<lambda>(n, v). lower n = lower hname \<and>
         lower n \<notin> set [''content-encoding'', ''transfer-encoding'', ''content-length'']) ms =
       filter (\<lambda>(n, v). lower n = lower hname) ms"
    if "lower hname \<notin> set [''content-encoding'', ''transfer-encoding'', ''content-length'']"
    for hname and ms :: fields
    using that by (intro filter_cong) auto
  have names: "lower ''content-encoding'' = ''content-encoding''"
    "lower ''content-length'' = ''content-length''"
    by code_simp+
  have before: "get_all (resp_headers ?replaced) hname = get_all (resp_headers (response flow)) hname"
    if "lower hname \<notin> set [''content-encoding'', ''transfer-encoding'', ''content-length'']"
    for hname
  proof -
    have "get_all (resp_headers ?replaced) hname =
          get_all (resp_headers ((response flow)
            \<lparr>status_code := m_status_code mock, reason := m_reason mock\<rparr>)) hname"
      by (rule get_all_set_content) (use that names in auto)
    then show ?thesis by simp
  qed
  have reads: "get_all (headers_set
         (copy_mock_headers (m_headers mock) (resp_headers ?replaced))
         ''X-Fallback-Mock'' ''true'') hname =
       (case filter (\<lambda>(n, v). lower n = lower hname) (m_headers mock) of
          [] \<Rightarrow> get_all (resp_headers (response flow)) hname
        | f # fs \<Rightarrow> [snd (last (f # fs))])"
    if "lower hname \<noteq> ''x-fallback-mock''"
      and "lower hname \<notin> set [''content-encoding'', ''transfer-encoding'', ''content-length'']"
    for hname
    using that(1) by (simp only: get_all_headers_set low if_False get_all_copy_mock_headers
        copied [OF that(2)] before [OF that(2)])
  have tag: "get_all (headers_set
         (copy_mock_headers (m_headers mock) (resp_headers ?replaced))
         ''X-Fallback-Mock'' ''true'') ''X-Fallback-Mock'' = [''true'']"
    by (simp add: get_all_headers_set)
  show ?thesis
    unfolding eq using reads tag by (simp add: set_content_fields)
qed

text \<open>
  C4, at a concrete flow: a 502 response and a mock backend that answers 200.
\<close>

theorem fallback_replaces_response_witness:
  "status_code (response bad_gateway_flow) = 502 \<and>
   status_code (response (fallback_mock_response no_query_text backend_closing identity_bookkeeping bad_gateway_flow)) = 200 \<and>
   content (response (fallback_mock_response no_query_text backend_closing identity_bookkeeping bad_gateway_flow)) = ''mocked'' \<and>
   get_all (resp_headers (response (fallback_mock_response no_query_text backend_closing identity_bookkeeping bad_gateway_flow)))
     ''X-Fallback-Mock'' = [''true'']"
proof -
  have st: "status_code (response bad_gateway_flow) = 502"
    by (simp add: bad_gateway_flow_def)
  then have s: "status_code (response bad_gateway_flow) \<in> set FALLBACK_STATUS_CODES"
    by (simp add: FALLBACK_STATUS_CODES_def)
  have r: "mock_backend_reply no_query_text backend_closing bad_gateway_flow =
      Inr \<lparr>m_status_code = 200, m_reason = ''OK'', m_content = ''mocked'',
           m_headers = [(''Content-Type'', ''application/json''), (''Content-Length'', ''6''),
                        (''Connection'', ''close'')]\<rparr>"
    by (simp add: mock_backend_reply_def backend_closing_def Let_def)
  have n: "m_status_code \<lparr>m_status_code = 200, m_reason = ''OK'', m_content = ''mocked'',
           m_headers = [(''Content-Type'', ''application/json''), (''Content-Length'', ''6''),
                        (''Connection'', ''close'')]\<rparr> \<noteq> 404"
    by simp
  from fallback_replaces_response [OF s r n] st show ?thesis by simp
qed

section \<open>The enhancer: merging real and supplemental data\<close>

lemma map_of_dict_setitem: "map_of (dict_setitem d k v) = (map_of d)(k \<mapsto> v)"
  by (induction d) (auto simp: fun_eq_iff)

lemma map_of_dict_merge: "map_of (dict_merge r e) = map_of r ++ map_of (rev e)"
  unfolding dict_merge_def
proof (induction e arbitrary: r)
  case Nil
  show ?case by simp
next
  case (Cons p e)
  obtain k v where p: "p = (k, v)" by (cases p)
  show ?case
    by (simp add: p Cons.IH map_of_dict_setitem map_add_upd_left fun_eq_iff map_add_def
          split: option.splits)
qed

lemma map_of_rev_distinct: "distinct (map fst e) \<Longrightarrow> map_of (rev e) = map_of e"
proof (induction e)
  case Nil
  show ?case by simp
next
  case (Cons p e)
  then have absent: "map_of (rev e) (fst p) = None"
    by (simp add: map_of_eq_None_iff)
  from Cons have IH: "map_of (rev e) = map_of e"
    by simp
  show ?case
    using absent IH
    by (cases p) (auto simp: fun_eq_iff map_add_def split: option.splits)
qed

lemma map_of_dict_merge_distinct:
  assumes "distinct (map fst e)"
  shows "map_of (dict_merge r e) k = (case map_of e k of None \<Rightarrow> map_of r k | Some v \<Rightarrow> Some v)"
  using assms by (simp add: map_of_dict_merge map_add_def map_of_rev_distinct)

text \<open>
  C7 as stated fails twice. A request that carries X-Enhance-Response with a value other
  than \<open>true\<close> (here \<open>1\<close>) is not enhanced although the supplemental object is
  fetched. And a real array is left as it is when the supplemental value carries an
  \<open>items\<close> field that is not a sequence (here the number 5): extending the array
  raises, and the script keeps the original response.
\<close>

theorem enhance_not_applied_counterexample:
  \<open>get_all (req_headers (request (profile_flow ''1''))) ''X-Enhance-Response'' = [''1''] \<and>
   enhance_responses_response example_loads example_dumps supplement_object (profile_flow ''1'') =
     profile_flow ''1'' \<and>
   enhance_responses_response example_loads example_dumps supplement_count orders_flow = orders_flow\<close>
  by code_simp

text \<open>
  C7, amended: for a flow whose real response has status 200 and whose request carries
  X-Enhance-Response with the value \<open>true\<close> (in any letter case), when the body
  decodes and a supplemental value is fetched: if both values are objects, the body
  becomes the text of their shallow merge, in which every key of the supplemental object
  has the supplemental value and every other key keeps the real one; if the real value
  is an array and the supplemental value is an object whose \<open>items\<close> field is an
  array, the body becomes the text of the real array followed by those items in order.
\<close>

theorem enhance_merges:
  assumes "status_code (response flow) = 200"
    and "lower (headers_get (req_headers (request flow)) ''X-Enhance-Response'' '''') = ''true''"
    and "loads (content (response flow)) = Some real_data"
    and "requests_get (MOCKOON_URL @ ''/enhance?path='' @ req_path (request flow))
           [(''X-Original-Path'', req_path (request flow))] = Inr reply"
    and "ok reply"
    and "reply_json reply = Some enhance_data"
  shows "(\<forall>r e. real_data = JObj r \<and> enhance_data = JObj e \<longrightarrow>
            content (response (enhance_responses_response loads dumps requests_get flow)) =
              dumps (JObj (dict_merge r e)) \<and>
            (distinct (map fst e) \<longrightarrow>
               (\<forall>k. map_of (dict_merge r e) k =
                  (case map_of e k of None \<Rightarrow> map_of r k | Some v \<Rightarrow> Some v)))) \<and>
         (\<forall>xs e ys. real_data = JArr xs \<and> enhance_data = JObj e \<and>
                    map_of e ''items'' = Some (JArr ys) \<longrightarrow>
            content (response (enhance_responses_response loads dumps requests_get flow)) =
              dumps (JArr (xs @ ys)))"
  using assms
  by (auto simp: enhance_responses_response_def merge_enhancement_def bind_def
        map_of_dict_merge_distinct)

text \<open>
  C7, at two concrete flows: an object merged with an object (the supplemental
  \<open>name\<close> wins, \<open>vip\<close> is added), and an array extended by two items.
\<close>

theorem enhance_merges_witness:
  \<open>content (response (enhance_responses_response example_loads example_dumps supplement_object
      (profile_flow ''true''))) = ''{"id": 1, "name": "mock", "vip": true}'' \<and>
   content (response (enhance_responses_response example_loads example_dumps supplement_items
      orders_flow)) = ''[1, 2, 3, 4]''\<close>
proof -
  have a1: "status_code (response (profile_flow ''true'')) = 200"
    by (simp add: profile_flow_def)
  have a2: "lower (headers_get (req_headers (request (profile_flow ''true'')))
              ''X-Enhance-Response'' '''') = ''true''"
    by code_simp
  have a3: "example_loads (content (response (profile_flow ''true''))) =
      Some (JObj [(''id'', JInt 1), (''name'', JStr ''real'')])"
    by code_simp
  have a4: "supplement_object
      (MOCKOON_URL @ ''/enhance?path='' @ req_path (request (profile_flow ''true'')))
      [(''X-Original-Path'', req_path (request (profile_flow ''true'')))] =
      Inr \<lparr>ok = True, reply_json = Some (JObj [(''name'', JStr ''mock''), (''vip'', JBool True)])\<rparr>"
    by (simp add: supplement_object_def)
  have a5: "ok \<lparr>ok = True, reply_json = Some (JObj [(''name'', JStr ''mock''), (''vip'', JBool True)])\<rparr>"
    by simp
  have a6: "reply_json
      \<lparr>ok = True, reply_json = Some (JObj [(''name'', JStr ''mock''), (''vip'', JBool True)])\<rparr> =
      Some (JObj [(''name'', JStr ''mock''), (''vip'', JBool True)])"
    by simp
  have merged: "content (response (enhance_responses_response example_loads example_dumps
      supplement_object (profile_flow ''true''))) =
      example_dumps (JObj (dict_merge [(''id'', JInt 1), (''name'', JStr ''real'')]
                                      [(''name'', JStr ''mock''), (''vip'', JBool True)]))"
    using enhance_merges [where loads = example_loads and dumps = example_dumps and
        requests_get = supplement_object and flow = "profile_flow ''true''", OF a1 a2 a3 a4 a5 a6]
    by blast
  have text1: \<open>example_dumps (JObj (dict_merge [(''id'', JInt 1), (''name'', JStr ''real'')]
                                      [(''name'', JStr ''mock''), (''vip'', JBool True)])) =
      ''{"id": 1, "name": "mock", "vip": true}''\<close>
    by code_simp
  have b1: "status_code (response orders_flow) = 200"
    by (simp add: orders_flow_def)
  have b2: "lower (headers_get (req_headers (request orders_flow)) ''X-Enhance-Response'' '''') = ''true''"
    by code_simp
  have b3: "example_loads (content (response orders_flow)) = Some (JArr [JInt 1, JInt 2])"
    by code_simp
  have b4: "supplement_items (MOCKOON_URL @ ''/enhance?path='' @ req_path (request orders_flow))
      [(''X-Original-Path'', req_path (request orders_flow))] =
      Inr \<lparr>ok = True, reply_json = Some (JObj [(''items'', JArr [JInt 3, JInt 4])])\<rparr>"
    by (simp add: supplement_items_def)
  have b5: "ok \<lparr>ok = True, reply_json = Some (JObj [(''items'', JArr [JInt 3, JInt 4])])\<rparr>"
    by simp
  have b6: "reply_json \<lparr>ok = True, reply_json = Some (JObj [(''items'', JArr [JInt 3, JInt 4])])\<rparr> =
      Some (JObj [(''items'', JArr [JInt 3, JInt 4])])"
    by simp
  have items: "map_of [(''items'', JArr [JInt 3, JInt 4])] ''items'' = Some (JArr [JInt 3, JInt 4])"
    by simp
  have appended: "content (response (enhance_responses_response example_loads example_dumps
      supplement_items orders_flow)) = example_dumps (JArr ([JInt 1, JInt 2] @ [JInt 3, JInt 4]))"
    using enhance_merges [where loads = example_loads and dumps = example_dumps and
        requests_get = supplement_items and flow = orders_flow, OF b1 b2 b3 b4 b5 b6] items
    by blast
  have text2: "example_dumps (JArr ([JInt 1, JInt 2] @ [JInt 3, JInt 4])) = ''[1, 2, 3, 4]''"
    by code_simp
  from merged text1 appended text2 show ?thesis by simp
qed

section \<open>The compiler: malformed lines\<close>

text \<open>
  C2 as stated fails: the compiler decodes every non-blank line with
  \<^verbatim>\<open>json.loads\<close> and catches nothing, so one malformed line ends the run with
  the decoding error and no route table, although the other line of the log is
  well-formed and compiles to one route on its own.
\<close>

theorem malformed_line_aborts_counterexample:
  "json_loads example_lib ''not json'' = None \<and>
   json_loads example_lib users_42_line = Some users_42 \<and>
   convert_recordings_to_mockoon example_lib [''not json'', users_42_line] ''Recorded API Mocks'' =
     Inl JSONDecodeError \<and>
   map_sum id (\<lambda>env. length (routes env))
     (convert_recordings_to_mockoon example_lib [users_42_line] ''Recorded API Mocks'') = Inr 1"
  by code_simp

text \<open>
  C2, amended: a log with a non-blank line that does not decode makes the compiler
  fail with the decoding error (no route table is produced). A line is blank when
  \<^verbatim>\<open>line.strip()\<close> is empty; blank lines are skipped: they change nothing.
  When every non-blank line decodes, all of them are read, in order.
\<close>

theorem malformed_line_aborts_compile:
  "((\<exists>line \<in> set input_file. str_strip lib line \<noteq> [] \<and> json_loads lib line = None) \<longrightarrow>
      convert_recordings_to_mockoon lib input_file nm = Inl JSONDecodeError) \<and>
   convert_recordings_to_mockoon lib (filter (\<lambda>line. str_strip lib line \<noteq> []) input_file) nm =
     convert_recordings_to_mockoon lib input_file nm \<and>
   ((\<forall>line \<in> set input_file. str_strip lib line = [] \<or> json_loads lib line \<noteq> None) \<longrightarrow>
      read_recordings lib input_file =
        Inr (map (\<lambda>line. the (json_loads lib line))
               (filter (\<lambda>line. str_strip lib line \<noteq> []) input_file)))"
proof (intro conjI impI)
  assume "\<exists>line \<in> set input_file. str_strip lib line \<noteq> [] \<and> json_loads lib line = None"
  then have "read_recordings lib input_file = Inl JSONDecodeError"
    by (simp add: read_recordings_eq)
  then show "convert_recordings_to_mockoon lib input_file nm = Inl JSONDecodeError"
    by (simp add: convert_recordings_to_mockoon_def bind_def)
next
  show "convert_recordings_to_mockoon lib (filter (\<lambda>line. str_strip lib line \<noteq> []) input_file) nm =
        convert_recordings_to_mockoon lib input_file nm"
    by (simp add: convert_recordings_to_mockoon_def read_recordings_skips_blank)
next
  assume "\<forall>line \<in> set input_file. str_strip lib line = [] \<or> json_loads lib line \<noteq> None"
  then have "\<not> (\<exists>line \<in> set input_file. str_strip lib line \<noteq> [] \<and> json_loads lib line = None)"
    by blast
  then show "read_recordings lib input_file =
        Inr (map (\<lambda>line. the (json_loads lib line))
               (filter (\<lambda>line. str_strip lib line \<noteq> []) input_file))"
    by (simp only: read_recordings_eq if_False)
qed

text \<open>
  C2, at a concrete log: a well-formed line followed by a malformed one. The run fails,
  also with a blank line in between.
\<close>

theorem malformed_line_aborts_compile_witness:
  "str_strip example_lib ''not json'' \<noteq> [] \<and> json_loads example_lib ''not json'' = None \<and>
   convert_recordings_to_mockoon example_lib [users_42_line, ''not json''] ''Recorded API Mocks'' =
     Inl JSONDecodeError \<and>
   convert_recordings_to_mockoon example_lib [users_42_line, ''  '', ''not json''] ''Recorded API Mocks'' =
     Inl JSONDecodeError"
proof -
  have nonblank: "str_strip example_lib ''not json'' \<noteq> []"
    by code_simp
  have blank: "str_strip example_lib ''  '' = []"
    by code_simp
  have malformed: "json_loads example_lib ''not json'' = None"
    by code_simp
  have some: "\<exists>line \<in> set [users_42_line, ''not json''].
      str_strip example_lib line \<noteq> [] \<and> json_loads example_lib line = None"
    using nonblank malformed by simp
  have abort: "convert_recordings_to_mockoon example_lib [users_42_line, ''not json'']
      ''Recorded API Mocks'' = Inl JSONDecodeError"
    using malformed_line_aborts_compile
      [of "[users_42_line, ''not json'']" example_lib "''Recorded API Mocks''"] some
    by blast
  have "filter (\<lambda>line. str_strip example_lib line \<noteq> []) [users_42_line, ''  '', ''not json''] =
        filter (\<lambda>line. str_strip example_lib line \<noteq> []) [users_42_line, ''not json'']"
    using blank by simp
  then have "convert_recordings_to_mockoon example_lib [users_42_line, ''  '', ''not json'']
      ''Recorded API Mocks'' =
      convert_recordings_to_mockoon example_lib [users_42_line, ''not json''] ''Recorded API Mocks''"
    using malformed_line_aborts_compile
        [of "[users_42_line, ''  '', ''not json'']" example_lib "''Recorded API Mocks''"]
      malformed_line_aborts_compile
        [of "[users_42_line, ''not json'']" example_lib "''Recorded API Mocks''"]
    by metis
  with abort nonblank malformed show ?thesis by simp
qed

section \<open>The compiler: the same table whatever the identifiers\<close>

text \<open>The identifiers reach no step before the routes are built.\<close>

lemma lower_method_uuid4: "lower_method (lib\<lparr>uuid4 := u\<rparr>) v = lower_method lib v"
  by (cases v) simp_all

lemma clean_headers_uuid4: "clean_headers (lib\<lparr>uuid4 := u\<rparr>) hs = clean_headers lib hs"
  by (cases hs) simp_all

lemma determine_endpoint_uuid4:
  "determine_endpoint (lib\<lparr>uuid4 := u\<rparr>) path = determine_endpoint lib path"
  by (simp add: determine_endpoint_def)

lemma recording_key_uuid4: "recording_key (lib\<lparr>uuid4 := u\<rparr>) rec = recording_key lib rec"
  by (simp add: recording_key_def format_str_def lower_method_uuid4 cong: json.case_cong)

lemma read_recordings_uuid4:
  "read_recordings (lib\<lparr>uuid4 := u\<rparr>) input_file = read_recordings lib input_file"
  by (induction input_file) (simp_all split: option.splits)

lemma group_recordings_uuid4:
  "group_recordings (lib\<lparr>uuid4 := u\<rparr>) g recs = group_recordings lib g recs"
  by (induction recs arbitrary: g) (simp_all add: recording_key_uuid4)

text \<open>
  One route: whether it is built does not depend on the identifiers, and neither do its
  tuples; the counter of generated identifiers does not matter either.
\<close>

lemma build_route_uuid4:
  "map_sum id (\<lambda>(r, n). route_tuples r) (build_route (lib\<lparr>uuid4 := u\<rparr>) n entry) =
   map_sum id (\<lambda>(r, n). route_tuples r) (build_route (lib\<lparr>uuid4 := u'\<rparr>) n' entry)"
  by (cases entry)
     (auto simp: build_route_def bind_def generate_uuid_def response_body_def
        clean_headers_uuid4 determine_endpoint_uuid4
        split: sum.splits prod.splits json.splits)

lemma build_routes_uuid4:
  "map_sum id (\<lambda>(rs, n). map route_tuples rs) (build_routes (lib\<lparr>uuid4 := u\<rparr>) n grouped) =
   map_sum id (\<lambda>(rs, n). map route_tuples rs) (build_routes (lib\<lparr>uuid4 := u'\<rparr>) n' grouped)"
proof (induction grouped arbitrary: n n')
  case Nil
  show ?case by simp
next
  case (Cons entry grouped)
  show ?case
  proof (cases "build_route (lib\<lparr>uuid4 := u\<rparr>) n entry")
    case (Inl e)
    with build_route_uuid4
      [where lib = lib and u = u and n = n and entry = entry and u' = u' and n' = n']
    have "build_route (lib\<lparr>uuid4 := u'\<rparr>) n' entry = Inl e"
      by (cases "build_route (lib\<lparr>uuid4 := u'\<rparr>) n' entry") auto
    with Inl show ?thesis by (simp add: bind_def)
  next
    case (Inr p)
    obtain r m where p: "p = (r, m)" by (cases p)
    from Inr p build_route_uuid4
      [where lib = lib and u = u and n = n and entry = entry and u' = u' and n' = n']
    obtain r' m' where
      other: "build_route (lib\<lparr>uuid4 := u'\<rparr>) n' entry = Inr (r', m')" and
      same: "route_tuples r = route_tuples r'"
      by (cases "build_route (lib\<lparr>uuid4 := u'\<rparr>) n' entry") auto
    from Cons.IH [where n = m and n' = m'] Inr p other same show ?thesis
      by (cases "build_routes (lib\<lparr>uuid4 := u\<rparr>) m grouped";
          cases "build_routes (lib\<lparr>uuid4 := u'\<rparr>) m' grouped")
         (auto simp: bind_def)
  qed
qed

text \<open>
  C9: two runs of the compiler on the same log, with whatever identifiers
  \<^verbatim>\<open>uuid4\<close> hands out in each, either both fail with the same error or produce
  route tables with the same sequence of (method, endpoint template, body, status,
  filtered headers) tuples, element for element and in the same order.
\<close>

theorem compile_deterministic_up_to_uuids:
  "map_sum id (\<lambda>env. map route_tuples (routes env))
     (convert_recordings_to_mockoon (lib\<lparr>uuid4 := u\<rparr>) input_file nm) =
   map_sum id (\<lambda>env. map route_tuples (routes env))
     (convert_recordings_to_mockoon (lib\<lparr>uuid4 := u'\<rparr>) input_file nm)"
proof (cases "read_recordings lib input_file")
  case (Inl e)
  then show ?thesis
    by (simp add: convert_recordings_to_mockoon_def read_recordings_uuid4 bind_def)
next
  case (Inr recordings)
  note read = this
  show ?thesis
  proof (cases "group_recordings lib [] recordings")
    case (Inl e)
    with read show ?thesis
      by (simp add: convert_recordings_to_mockoon_def read_recordings_uuid4
            group_recordings_uuid4 bind_def)
  next
    case (Inr grouped)
    with read build_routes_uuid4
      [where lib = lib and u = u and n = 0 and grouped = grouped and u' = u' and n' = 0]
    show ?thesis
      by (cases "build_routes (lib\<lparr>uuid4 := u\<rparr>) 0 grouped";
          cases "build_routes (lib\<lparr>uuid4 := u'\<rparr>) 0 grouped")
         (auto simp: convert_recordings_to_mockoon_def read_recordings_uuid4
            group_recordings_uuid4 bind_def)
  qed
qed

text \<open>
  C9, at the concrete log, compiled once with identifiers \<open>a0, a1, \<dots>\<close> and once with
  \<open>b0, b1, \<dots>\<close>: the identifiers of the first routes differ, the tuples agree.
\<close>

theorem compile_deterministic_up_to_uuids_witness:
  "map_sum id (\<lambda>env. map uuid (routes env))
     (convert_recordings_to_mockoon (example_lib\<lparr>uuid4 := \<lambda>n. ''a'' @ str_nat n\<rparr>)
        [users_42_line, users_17_line] ''Recorded API Mocks'') = Inr [''a0'', ''a2''] \<and>
   map_sum id (\<lambda>env. map uuid (routes env))
     (convert_recordings_to_mockoon (example_lib\<lparr>uuid4 := \<lambda>n. ''b'' @ str_nat n\<rparr>)
        [users_42_line, users_17_line] ''Recorded API Mocks'') = Inr [''b0'', ''b2''] \<and>
   map_sum id (\<lambda>env. map route_tuples (routes env))
     (convert_recordings_to_mockoon (example_lib\<lparr>uuid4 := \<lambda>n. ''a'' @ str_nat n\<rparr>)
        [users_42_line, users_17_line] ''Recorded API Mocks'') =
   map_sum id (\<lambda>env. map route_tuples (routes env))
     (convert_recordings_to_mockoon (example_lib\<lparr>uuid4 := \<lambda>n. ''b'' @ str_nat n\<rparr>)
        [users_42_line, users_17_line] ''Recorded API Mocks'')"
proof -
  have a: "map_sum id (\<lambda>env. map uuid (routes env))
     (convert_recordings_to_mockoon (example_lib\<lparr>uuid4 := \<lambda>n. ''a'' @ str_nat n\<rparr>)
        [users_42_line, users_17_line] ''Recorded API Mocks'') = Inr [''a0'', ''a2'']"
    by code_simp
  have b: "map_sum id (\<lambda>env. map uuid (routes env))
     (convert_recordings_to_mockoon (example_lib\<lparr>uuid4 := \<lambda>n. ''b'' @ str_nat n\<rparr>)
        [users_42_line, users_17_line] ''Recorded API Mocks'') = Inr [''b0'', ''b2'']"
    by code_simp
  from a b compile_deterministic_up_to_uuids
    [where lib = example_lib and u = "\<lambda>n. ''a'' @ str_nat n" and u' = "\<lambda>n. ''b'' @ str_nat n" and
       input_file = "[users_42_line, users_17_line]" and nm = "''Recorded API Mocks''"]
  show ?thesis by blast
qed

section \<open>Connection-scoped headers\<close>

lemma build_routes_headers:
  assumes "build_routes lib n grouped = Inr (rs, n')"
  shows "\<forall>r \<in> set rs. \<forall>rv \<in> set (responses r). \<forall>h \<in> set (headers rv).
           str_lower lib (hkey h) \<notin> set exclude_headers"
proof -
  have "list_all2 (\<lambda>r entry. \<exists>m m'. build_route lib m entry = Inr (r, m')) rs grouped"
    by (rule build_routes_Inr [OF assms])
  then have built: "\<forall>r \<in> set rs. \<exists>m m' entry. build_route lib m entry = Inr (r, m')"
    by (induction rule: list_all2_induct) auto
  show ?thesis
  proof (intro ballI)
    fix r rv h
    assume r: "r \<in> set rs" and rv: "rv \<in> set (responses r)" and h: "h \<in> set (headers rv)"
    from built r obtain m m' key recs where "build_route lib m (key, recs) = Inr (r, m')"
      by (metis surj_pair)
    from build_route_Inr [OF this] obtain hs cleaned rv' where
      cleaned: "clean_headers lib hs = Inr cleaned" and
      only: "responses r = [rv']" and
      hdrs: "headers rv' = cleaned"
      by blast
    from rv only have "rv = rv'" by simp
    with h hdrs clean_headers_excluded [OF cleaned]
    show "str_lower lib (hkey h) \<notin> set exclude_headers" by blast
  qed
qed

text \<open>
  C3 as stated fails for the fallback: a mock reply with the header Connection: close
  replaces a 502 response, and the header is copied onto the client-visible response,
  although \<open>connection\<close> is one of the six connection-scoped names.
\<close>

theorem fallback_copies_connection_counterexample:
  "lower ''Connection'' \<in> set exclude_headers \<and>
   get_all (resp_headers (response bad_gateway_flow)) ''Connection'' = [] \<and>
   get_all (resp_headers (response
      (fallback_mock_response no_query_text backend_closing identity_bookkeeping bad_gateway_flow)))
      ''Connection'' =
     [''close'']"
  by code_simp

text \<open>
  C3, amended: none of the six connection-scoped headers (content-length,
  transfer-encoding, content-encoding, connection, keep-alive, host), compared in lower
  case, appears in the header list of a compiled route's response variant. The fallback
  copies no content-encoding, transfer-encoding or content-length header from the mock
  backend: in a replaced response the fields of these three names are those that the
  proxy holds once the body is assigned, whatever headers the mock reply has.
\<close>

theorem connection_scoped_headers_left_out:
  "(convert_recordings_to_mockoon lib input_file nm = Inr env \<longrightarrow>
      (\<forall>r \<in> set (routes env). \<forall>rv \<in> set (responses r). \<forall>h \<in> set (headers rv).
         str_lower lib (hkey h) \<notin>
           set [''content-length'', ''transfer-encoding'', ''content-encoding'',
                ''connection'', ''keep-alive'', ''host''])) \<and>
   (status_code (response flow) \<in> set FALLBACK_STATUS_CODES \<and>
    mock_backend_reply query_str requests_request flow = Inr mock \<and>
    m_status_code mock \<noteq> 404 \<longrightarrow>
      filter (\<lambda>(n, v). lower n \<in> set [''content-encoding'', ''transfer-encoding'', ''content-length''])
        (resp_headers (response (fallback_mock_response query_str requests_request bookkeeping flow))) =
      filter (\<lambda>(n, v). lower n \<in> set [''content-encoding'', ''transfer-encoding'', ''content-length''])
        (resp_headers (set_content bookkeeping (response flow) (m_content mock))))"
proof (intro conjI impI)
  assume "convert_recordings_to_mockoon lib input_file nm = Inr env"
  from convert_Inr [OF this] obtain grouped n where
    "build_routes lib 0 grouped = Inr (routes env, n)"
    by blast
  then have "\<forall>r \<in> set (routes env). \<forall>rv \<in> set (responses r). \<forall>h \<in> set (headers rv).
      str_lower lib (hkey h) \<notin> set exclude_headers"
    by (rule build_routes_headers)
  then show "\<forall>r \<in> set (routes env). \<forall>rv \<in> set (responses r). \<forall>h \<in> set (headers rv).
      str_lower lib (hkey h) \<notin>
        set [''content-length'', ''transfer-encoding'', ''content-encoding'',
             ''connection'', ''keep-alive'', ''host'']"
    by (simp add: exclude_headers_def)
next
  assume a: "status_code (response flow) \<in> set FALLBACK_STATUS_CODES \<and>
    mock_backend_reply query_str requests_request flow = Inr mock \<and>
    m_status_code mock \<noteq> 404"
  let ?replaced = "set_content bookkeeping
      ((response flow)\<lparr>status_code := m_status_code mock, reason := m_reason mock\<rparr>)
      (m_content mock)"
  have tag: "lower ''X-Fallback-Mock'' \<notin>
      set [''content-encoding'', ''transfer-encoding'', ''content-length'']"
    by code_simp
  have kept: "filter (\<lambda>(n, v). lower n \<in> set [''content-encoding'', ''transfer-encoding'', ''content-length''])
       (headers_set (copy_mock_headers ms hs) ''X-Fallback-Mock'' ''true'') =
     filter (\<lambda>(n, v). lower n \<in> set [''content-encoding'', ''transfer-encoding'', ''content-length''])
       hs" for ms hs
    unfolding headers_set_def
    using filter_set_all_other
      [where P = "\<lambda>x. x \<in> set [''content-encoding'', ''transfer-encoding'', ''content-length'']"
         and k = "''X-Fallback-Mock''" and vs = "[''true'']" and fs = "copy_mock_headers ms hs",
       OF tag]
    by (simp only: filter_copy_mock_headers)
  have replaced: "resp_headers (response
        (fallback_mock_response query_str requests_request bookkeeping flow)) =
      headers_set (copy_mock_headers (m_headers mock) (resp_headers ?replaced))
        ''X-Fallback-Mock'' ''true''"
    using a by (simp add: fallback_mock_response_def Let_def)
  have assigned: "resp_headers ?replaced =
      resp_headers (set_content bookkeeping (response flow) (m_content mock))"
    by (rule resp_headers_set_content_update)
  show "filter (\<lambda>(n, v). lower n \<in> set [''content-encoding'', ''transfer-encoding'', ''content-length''])
        (resp_headers (response (fallback_mock_response query_str requests_request bookkeeping flow))) =
      filter (\<lambda>(n, v). lower n \<in> set [''content-encoding'', ''transfer-encoding'', ''content-length''])
        (resp_headers (set_content bookkeeping (response flow) (m_content mock)))"
    unfolding replaced kept assigned by (rule refl)
qed

text \<open>
  C3, at a concrete log and a concrete flow. The recorded response headers Content-Type
  and Content-Length leave Content-Type in the compiled route. A mock reply with
  Transfer-Encoding: chunked replaces a 502 response: the response carries no
  Transfer-Encoding, and its one Content-Length is the length of the new body, which the
  proxy wrote when the body was assigned.
\<close>

theorem connection_scoped_headers_left_out_witness:
  "(\<exists>env. convert_recordings_to_mockoon example_lib [users_42_line] ''Recorded API Mocks'' = Inr env \<and>
      routes env \<noteq> [] \<and>
      list_all (\<lambda>r. list_all (\<lambda>rv. list_all
         (\<lambda>h. str_lower example_lib (hkey h) \<notin>
            set [''content-length'', ''transfer-encoding'', ''content-encoding'',
                 ''connection'', ''keep-alive'', ''host''])
         (headers rv)) (responses r)) (routes env)) \<and>
   map_sum id (\<lambda>env. map (\<lambda>r. map (\<lambda>rv. map hkey (headers rv)) (responses r)) (routes env))
     (convert_recordings_to_mockoon example_lib [users_42_line] ''Recorded API Mocks'') =
     Inr [[[''Content-Type'']]] \<and>
   map_sum id (\<lambda>mock. get_all (m_headers mock) ''Transfer-Encoding'')
     (mock_backend_reply no_query_text backend_keep_alive bad_gateway_flow) = Inr [''chunked''] \<and>
   filter (\<lambda>(n, v). lower n \<in> set [''content-encoding'', ''transfer-encoding'', ''content-length''])
     (resp_headers (response
        (fallback_mock_response no_query_text backend_keep_alive identity_bookkeeping bad_gateway_flow))) =
     [(''content-length'', ''6'')]"
proof -
  have "case convert_recordings_to_mockoon example_lib [users_42_line] ''Recorded API Mocks'' of
          Inl e \<Rightarrow> False
        | Inr env \<Rightarrow> routes env \<noteq> []"
    by code_simp
  then obtain env where
    env: "convert_recordings_to_mockoon example_lib [users_42_line] ''Recorded API Mocks'' = Inr env" and
    some: "routes env \<noteq> []"
    by (auto split: sum.splits)
  from env connection_scoped_headers_left_out
      [where lib = example_lib and input_file = "[users_42_line]" and
         nm = "''Recorded API Mocks''" and env = env]
  have "\<forall>r \<in> set (routes env). \<forall>rv \<in> set (responses r). \<forall>h \<in> set (headers rv).
      str_lower example_lib (hkey h) \<notin>
        set [''content-length'', ''transfer-encoding'', ''content-encoding'',
             ''connection'', ''keep-alive'', ''host'']"
    by blast
  then have clean: "list_all (\<lambda>r. list_all (\<lambda>rv. list_all
         (\<lambda>h. str_lower example_lib (hkey h) \<notin>
            set [''content-length'', ''transfer-encoding'', ''content-encoding'',
                 ''connection'', ''keep-alive'', ''host''])
         (headers rv)) (responses r)) (routes env)"
    unfolding list_all_iff by blast
  have compiled: "map_sum id
     (\<lambda>env. map (\<lambda>r. map (\<lambda>rv. map hkey (headers rv)) (responses r)) (routes env))
     (convert_recordings_to_mockoon example_lib [users_42_line] ''Recorded API Mocks'') =
     Inr [[[''Content-Type'']]]"
    by code_simp
  have st: "status_code (response bad_gateway_flow) \<in> set FALLBACK_STATUS_CODES"
    by (simp add: bad_gateway_flow_def FALLBACK_STATUS_CODES_def)
  have reply: "mock_backend_reply no_query_text backend_keep_alive bad_gateway_flow =
      Inr \<lparr>m_status_code = 200, m_reason = ''OK'', m_content = ''mocked'',
           m_headers = [(''Content-Type'', ''application/json''), (''Transfer-Encoding'', ''chunked''),
                        (''Keep-Alive'', ''timeout=5''), (''Host'', ''mockoon:3000'')]\<rparr>"
    by (simp add: mock_backend_reply_def backend_keep_alive_def Let_def)
  have chunked: "map_sum id (\<lambda>mock. get_all (m_headers mock) ''Transfer-Encoding'')
     (mock_backend_reply no_query_text backend_keep_alive bad_gateway_flow) = Inr [''chunked'']"
    unfolding reply by code_simp
  have assigned: "filter
     (\<lambda>(n, v). lower n \<in> set [''content-encoding'', ''transfer-encoding'', ''content-length''])
     (resp_headers (set_content identity_bookkeeping (response bad_gateway_flow) ''mocked'')) =
     [(''content-length'', ''6'')]"
    by code_simp
  have after: "filter
     (\<lambda>(n, v). lower n \<in> set [''content-encoding'', ''transfer-encoding'', ''content-length''])
     (resp_headers (response
        (fallback_mock_response no_query_text backend_keep_alive identity_bookkeeping bad_gateway_flow))) =
     [(''content-length'', ''6'')]"
    using st reply assigned connection_scoped_headers_left_out
      [where query_str = no_query_text and requests_request = backend_keep_alive
         and bookkeeping = identity_bookkeeping and flow = bad_gateway_flow
         and mock = "\<lparr>m_status_code = 200, m_reason = ''OK'', m_content = ''mocked'',
           m_headers = [(''Content-Type'', ''application/json''), (''Transfer-Encoding'', ''chunked''),
                        (''Keep-Alive'', ''timeout=5''), (''Host'', ''mockoon:3000'')]\<rparr>"]
    by simp
  from env some clean compiled chunked after show ?thesis by blast
qed

section \<open>The compiler: one route per recorded key\<close>




end
